theory Spec2Isabelle
  imports Complex_Main "HOL-Library.AList" "HOL-Library.Log_Nat"
begin

section \<open>Data model\<close>

text \<open>
  The alert engine of CryptoPriceBot: \<^verbatim>\<open>alerts.py\<close> (subscription registry and poll
  cycle), the JSON methods of \<^verbatim>\<open>user_storage.py\<close> and \<^verbatim>\<open>get_multiple_prices\<close> of
  \<^verbatim>\<open>crypto_api.py\<close>.

  Conventions of the embedding.
  \<^item> A Python dict is an association list in insertion order: \<open>map_of\<close> looks a key up,
    \<open>AList.update\<close> assigns (in place for a known key, at the end for a new one),
    \<open>AList.delete\<close> is \<^verbatim>\<open>del\<close>. Two dicts are equal in Python when they hold the same
    items, whatever the order, that is when their \<open>map_of\<close> agree.
  \<^item> Prices, thresholds and percentages are Python floats. A float is modelled by the
    real number it denotes: comparisons and \<^verbatim>\<open>abs\<close> are exact on floats, and so they are
    here. Subtraction, division and multiplication of floats round their result; they
    are parameters of the poll cycle (record \<open>float_arith\<close>) of which nothing is
    assumed, and \<open>ieee_arith\<close> is the arithmetic of IEEE doubles. Infinities and NaN are
    outside the model.
  \<^item> Exceptions are values of type \<open>error\<close>.
  \<^item> The metadata block of the stored document holds wall-clock timestamps only and is
    left out; the lock of \<^verbatim>\<open>UserStorage\<close> is left out as well, every operation runs
    alone. The stored file always holds a document with the four tables that
    \<^verbatim>\<open>_ensure_json_file_exists\<close> creates, and reading and writing it succeed.
\<close>

datatype error = ValueError | ZeroDivisionError | HTTPError

text \<open>The document of \<^verbatim>\<open>user_data.json\<close>: keys of the per-user tables are strings.\<close>

record document =
  json_subscribers :: "int list"
  json_user_alert_thresholds :: "(string \<times> real) list"
  json_user_coin_subscriptions :: "(string \<times> string list) list"
  json_last_prices :: "(string \<times> real) list"

text \<open>The module-level globals of \<^verbatim>\<open>alerts.py\<close> together with the stored file.\<close>

record state =
  subscribers :: "int list"
  last_prices :: "(string \<times> real) list"
  user_alert_thresholds :: "(int \<times> real) list"
  user_coin_subscriptions :: "(int \<times> string list) list"
  json_file :: document

datatype direction = Up | Down

text \<open>
  An alert message, as the values its text is formatted from: the receiver, the coin,
  the arrow, both prices, the change and the threshold shown. The lookup of the coin's
  display name and the number formatting are not modelled.
\<close>

record message =
  msg_chat_id :: int
  msg_coin_id :: string
  msg_direction :: direction
  msg_current_price :: real
  msg_last_price :: real
  msg_change :: real
  msg_user_threshold :: real

text \<open>What a poll cycle does to the outside world, in order.\<close>

datatype effect =
    HttpGet string
  | SendMessage message
  | SaveLastPrices "(string \<times> real) list"

section \<open>Python built-ins\<close>

text \<open>\<^verbatim>\<open>str\<close> on an integer: decimal digits, a minus sign for negative numbers.\<close>

definition digit_char :: "nat \<Rightarrow> char" where
  "digit_char n = ''0123456789'' ! n"

function str_nat :: "nat \<Rightarrow> string" where
  "str_nat n = (if n < 10 then [digit_char n] else str_nat (n div 10) @ [digit_char (n mod 10)])"
  by pat_completeness auto
termination
  by (relation "measure (\<lambda>n. n)") auto

definition str :: "int \<Rightarrow> string" where
  "str i = (if i < 0 then CHR ''-'' # str_nat (nat (- i)) else str_nat (nat i))"

text \<open>
  \<^verbatim>\<open>int\<close> on a string is a parameter \<open>int_of\<close> of the loading functions (\<open>None\<close> is
  ValueError). \<open>int_of_str\<close> is a reference parser for the plain decimal form: an optional
  sign followed by digits. Python's own \<^verbatim>\<open>int\<close> accepts more (surrounding blanks,
  underscores).
\<close>

definition digit_val :: "char \<Rightarrow> nat option" where
  "digit_val c = (let n = (of_char c :: nat) in if 48 \<le> n \<and> n \<le> 57 then Some (n - 48) else None)"

fun nat_of_digits :: "string \<Rightarrow> nat \<Rightarrow> nat option" where
  "nat_of_digits [] acc = Some acc"
| "nat_of_digits (c # cs) acc =
     (case digit_val c of None \<Rightarrow> None | Some d \<Rightarrow> nat_of_digits cs (10 * acc + d))"

definition int_of_str :: "string \<Rightarrow> int option" where
  "int_of_str s =
     (case s of
        [] \<Rightarrow> None
      | c # cs \<Rightarrow>
          if c = CHR ''-'' then
            (if cs = [] then None else map_option (\<lambda>n. - int n) (nat_of_digits cs 0))
          else if c = CHR ''+'' then
            (if cs = [] then None else map_option int (nat_of_digits cs 0))
          else map_option int (nat_of_digits s 0))"

text \<open>\<^verbatim>\<open>sep.join(xs)\<close> and \<^verbatim>\<open>s.lower()\<close> on ASCII strings.\<close>

fun join :: "string \<Rightarrow> string list \<Rightarrow> string" where
  "join sep [] = []"
| "join sep [x] = x"
| "join sep (x # y # ys) = x @ sep @ join sep (y # ys)"

definition lower_char :: "char \<Rightarrow> char" where
  "lower_char c =
     (case map_of (zip ''ABCDEFGHIJKLMNOPQRSTUVWXYZ'' ''abcdefghijklmnopqrstuvwxyz'') c of
        None \<Rightarrow> c
      | Some l \<Rightarrow> l)"

definition lower :: "string \<Rightarrow> string" where
  "lower s = map lower_char s"

subsection \<open>Floats\<close>

text \<open>
  The result of \<^verbatim>\<open>a - b\<close>, \<^verbatim>\<open>a / b\<close> and \<^verbatim>\<open>a * b\<close> on floats is the exact result rounded
  to a float, so it is a function of the operands that need not be the exact difference,
  quotient or product. The poll cycle takes the three operations as a parameter.
\<close>

record float_arith =
  float_sub :: "real \<Rightarrow> real \<Rightarrow> real"
  float_div :: "real \<Rightarrow> real \<Rightarrow> real"
  float_mul :: "real \<Rightarrow> real \<Rightarrow> real"

text \<open>
  The arithmetic of Python's floats, IEEE doubles: 53 significant bits, round to nearest,
  ties to even. \<open>exponent_of x\<close> is the \<open>e\<close> with \<open>2 ^ e \<le> x < 2 ^ (e + 1)\<close> for a positive
  \<open>x\<close>. \<open>round_double x\<close> is the double nearest to \<open>x\<close>: a multiple of \<open>2 ^ (e - 52)\<close>, or
  of \<open>2 ^ - 1074\<close> in the subnormal range. It is the value of the float while the
  magnitude stays below \<open>2 ^ 1024\<close>, where doubles overflow to an infinity.
\<close>

definition exponent_of :: "real \<Rightarrow> int" where
  "exponent_of x =
     (if x \<ge> 1 then int (floorlog 2 (nat \<lfloor>x\<rfloor>)) - 1
      else - int (floorlog 2 (nat (\<lceil>1 / x\<rceil> - 1))))"

definition round_half_even :: "real \<Rightarrow> int" where
  "round_half_even y =
     (let f = \<lfloor>y\<rfloor>; d = y - of_int f
      in if d < 1 / 2 then f else if d > 1 / 2 then f + 1 else if even f then f else f + 1)"

definition round_double :: "real \<Rightarrow> real" where
  "round_double x =
     (if x = 0 then 0
      else
        let ulp = 2 powi (max (exponent_of \<bar>x\<bar> - 52) (- 1074))
        in sgn x * of_int (round_half_even (\<bar>x\<bar> / ulp)) * ulp)"

definition ieee_arith :: float_arith where
  "ieee_arith = \<lparr>float_sub = (\<lambda>a b. round_double (a - b)),
                  float_div = (\<lambda>a b. round_double (a / b)),
                  float_mul = (\<lambda>a b. round_double (a * b))\<rparr>"

section \<open>user_storage.py\<close>

subsection \<open>JSON methods\<close>

definition save_subscribers_json :: "int list \<Rightarrow> document \<Rightarrow> bool \<times> document" where
  "save_subscribers_json subs data = (True, data\<lparr>json_subscribers := subs\<rparr>)"

definition load_subscribers_json :: "document \<Rightarrow> int list" where
  "load_subscribers_json data = json_subscribers data"

definition save_user_threshold_json :: "int \<Rightarrow> real \<Rightarrow> document \<Rightarrow> bool \<times> document" where
  "save_user_threshold_json chat_id threshold data =
     (True, data\<lparr>json_user_alert_thresholds :=
                   AList.update (str chat_id) threshold (json_user_alert_thresholds data)\<rparr>)"

text \<open>
  The comprehension \<^verbatim>\<open>{int(k): v for k, v in d.items()}\<close>: items are visited in order, a
  later item with the same integer key overwrites the value, and a key that is not a
  number raises ValueError.
\<close>

fun int_keys :: "(string \<Rightarrow> int option) \<Rightarrow> (string \<times> 'v) list \<Rightarrow> (int \<times> 'v) list \<Rightarrow> error + (int \<times> 'v) list" where
  "int_keys int_of [] acc = Inr acc"
| "int_keys int_of ((k, v) # items) acc =
     (case int_of k of
        None \<Rightarrow> Inl ValueError
      | Some i \<Rightarrow> int_keys int_of items (AList.update i v acc))"

definition load_user_thresholds_json :: "(string \<Rightarrow> int option) \<Rightarrow> document \<Rightarrow> error + (int \<times> real) list" where
  "load_user_thresholds_json int_of data = int_keys int_of (json_user_alert_thresholds data) []"

definition save_user_coin_subscriptions_json :: "int \<Rightarrow> string list \<Rightarrow> document \<Rightarrow> bool \<times> document" where
  "save_user_coin_subscriptions_json chat_id coin_ids data =
     (True, data\<lparr>json_user_coin_subscriptions :=
                   AList.update (str chat_id) coin_ids (json_user_coin_subscriptions data)\<rparr>)"

definition load_user_coin_subscriptions_json :: "(string \<Rightarrow> int option) \<Rightarrow> document \<Rightarrow> error + (int \<times> string list) list" where
  "load_user_coin_subscriptions_json int_of data = int_keys int_of (json_user_coin_subscriptions data) []"

definition save_last_prices_json :: "(string \<times> real) list \<Rightarrow> document \<Rightarrow> bool \<times> document" where
  "save_last_prices_json prices data = (True, data\<lparr>json_last_prices := prices\<rparr>)"

definition load_last_prices_json :: "document \<Rightarrow> (string \<times> real) list" where
  "load_last_prices_json data = json_last_prices data"

subsection \<open>Public methods\<close>

text \<open>
  Each public method wraps its JSON method in \<^verbatim>\<open>try\<close>/\<^verbatim>\<open>except\<close>: an exception is logged
  and becomes \<^verbatim>\<open>False\<close> (saving) or an empty collection (loading).
\<close>

definition save_subscribers :: "int list \<Rightarrow> document \<Rightarrow> bool \<times> document" where
  "save_subscribers subs data = save_subscribers_json subs data"

definition load_subscribers :: "document \<Rightarrow> int list" where
  "load_subscribers data = load_subscribers_json data"

definition save_user_threshold :: "int \<Rightarrow> real \<Rightarrow> document \<Rightarrow> bool \<times> document" where
  "save_user_threshold chat_id threshold data = save_user_threshold_json chat_id threshold data"

definition load_user_thresholds :: "(string \<Rightarrow> int option) \<Rightarrow> document \<Rightarrow> (int \<times> real) list" where
  "load_user_thresholds int_of data =
     (case load_user_thresholds_json int_of data of Inl e \<Rightarrow> [] | Inr t \<Rightarrow> t)"

definition save_user_coin_subscriptions :: "int \<Rightarrow> string list \<Rightarrow> document \<Rightarrow> bool \<times> document" where
  "save_user_coin_subscriptions chat_id coin_ids data =
     save_user_coin_subscriptions_json chat_id coin_ids data"

definition load_user_coin_subscriptions :: "(string \<Rightarrow> int option) \<Rightarrow> document \<Rightarrow> (int \<times> string list) list" where
  "load_user_coin_subscriptions int_of data =
     (case load_user_coin_subscriptions_json int_of data of Inl e \<Rightarrow> [] | Inr t \<Rightarrow> t)"

definition save_last_prices :: "(string \<times> real) list \<Rightarrow> document \<Rightarrow> bool \<times> document" where
  "save_last_prices prices data = save_last_prices_json prices data"

definition load_last_prices :: "document \<Rightarrow> (string \<times> real) list" where
  "load_last_prices data = load_last_prices_json data"

text \<open>
  The per-user tables have no method that saves a whole table. Where the program saves
  one (\<^verbatim>\<open>remove_subscriber\<close>, \<^verbatim>\<open>restore_data\<close>) it loops over the items and saves each.
\<close>

definition save_all_user_thresholds :: "(int \<times> real) list \<Rightarrow> document \<Rightarrow> document" where
  "save_all_user_thresholds table data =
     fold (\<lambda>(chat_id, threshold) d. snd (save_user_threshold chat_id threshold d)) table data"

definition save_all_user_coin_subscriptions :: "(int \<times> string list) list \<Rightarrow> document \<Rightarrow> document" where
  "save_all_user_coin_subscriptions table data =
     fold (\<lambda>(chat_id, coin_ids) d. snd (save_user_coin_subscriptions chat_id coin_ids d)) table data"

section \<open>crypto_api.py\<close>

text \<open>
  The body of a price response: coin id to currency to price. A price may be JSON null.
\<close>

type_synonym price_json = "(string \<times> (string \<times> real option) list) list"

text \<open>The loop of \<^verbatim>\<open>get_multiple_prices\<close> that picks the requested coins from the response.\<close>

fun collect_prices :: "price_json \<Rightarrow> string \<Rightarrow> string list \<Rightarrow> (string \<times> real option) list \<Rightarrow> (string \<times> real option) list" where
  "collect_prices data currency [] prices = prices"
| "collect_prices data currency (coin_id # rest) prices =
     collect_prices data currency rest
       (case map_of data coin_id of
          None \<Rightarrow> prices
        | Some entry \<Rightarrow>
            (case map_of entry currency of
               None \<Rightarrow> prices
             | Some p \<Rightarrow> AList.update coin_id p prices))"

text \<open>
  \<open>http_get\<close> is the price source: it maps the request URL to the decoded body, or to
  the exception that the request, the status check or the decoding raises. Every
  exception is caught and gives the empty dict.
\<close>

definition get_multiple_prices :: "(string \<Rightarrow> error + price_json) \<Rightarrow> string list \<Rightarrow> string \<Rightarrow> (string \<times> real option) list \<times> effect list" where
  "get_multiple_prices http_get coin_ids currency =
     (if coin_ids = [] then ([], [])
      else
        let coin_ids_str = join '','' (take 250 coin_ids);
            url = ''https://api.coingecko.com/api/v3/simple/price?ids='' @ coin_ids_str
                    @ ''&vs_currencies='' @ lower currency
        in case http_get url of
             Inl e \<Rightarrow> ([], [HttpGet url])
           | Inr data \<Rightarrow> (collect_prices data (lower currency) coin_ids [], [HttpGet url]))"

section \<open>alerts.py\<close>

subsection \<open>Subscription registry\<close>

definition get_user_monitored_coins :: "state \<Rightarrow> int \<Rightarrow> string list" where
  "get_user_monitored_coins st user_id =
     (case map_of (user_coin_subscriptions st) user_id of
        Some coins \<Rightarrow> if coins \<noteq> [] then coins else []
      | None \<Rightarrow> [])"

definition add_coin_to_user_subscription :: "int \<Rightarrow> string \<Rightarrow> state \<Rightarrow> bool \<times> state" where
  "add_coin_to_user_subscription user_id coin_id st =
     (let st1 = (if map_of (user_coin_subscriptions st) user_id = None
                 then st\<lparr>user_coin_subscriptions := AList.update user_id [] (user_coin_subscriptions st)\<rparr>
                 else st);
          coins = (case map_of (user_coin_subscriptions st1) user_id of None \<Rightarrow> [] | Some cs \<Rightarrow> cs)
      in if coin_id \<notin> set coins then
           let coins' = coins @ [coin_id];
               st2 = st1\<lparr>user_coin_subscriptions := AList.update user_id coins' (user_coin_subscriptions st1)\<rparr>
           in (True, st2\<lparr>json_file := snd (save_user_coin_subscriptions user_id coins' (json_file st2))\<rparr>)
         else (False, st1))"

definition add_subscriber :: "int \<Rightarrow> state \<Rightarrow> bool \<times> state" where
  "add_subscriber chat_id st =
     (if chat_id \<notin> set (subscribers st) then
        let subs = subscribers st @ [chat_id]
        in (True, st\<lparr>subscribers := subs, json_file := snd (save_subscribers subs (json_file st))\<rparr>)
      else (False, st))"

definition remove_subscriber :: "int \<Rightarrow> state \<Rightarrow> bool \<times> state" where
  "remove_subscriber chat_id st =
     (if chat_id \<in> set (subscribers st) then
        let subs = remove1 chat_id (subscribers st);
            thresholds = (if map_of (user_alert_thresholds st) chat_id \<noteq> None
                          then AList.delete chat_id (user_alert_thresholds st)
                          else user_alert_thresholds st);
            coins = (if map_of (user_coin_subscriptions st) chat_id \<noteq> None
                     then AList.delete chat_id (user_coin_subscriptions st)
                     else user_coin_subscriptions st);
            d1 = snd (save_subscribers subs (json_file st));
            d2 = save_all_user_thresholds thresholds d1;
            d3 = save_all_user_coin_subscriptions coins d2
        in (True, st\<lparr>subscribers := subs, user_alert_thresholds := thresholds,
                      user_coin_subscriptions := coins, json_file := d3\<rparr>)
      else (False, st))"

definition set_user_alert_threshold :: "int \<Rightarrow> real \<Rightarrow> state \<Rightarrow> bool \<times> state" where
  "set_user_alert_threshold chat_id threshold st =
     (True, st\<lparr>user_alert_thresholds := AList.update chat_id threshold (user_alert_thresholds st),
                json_file := snd (save_user_threshold chat_id threshold (json_file st))\<rparr>)"

subsection \<open>Poll cycle\<close>

text \<open>
  The set that \<^verbatim>\<open>check_prices\<close> collects before it fetches: the coins of every subscriber.
\<close>

definition all_monitored_coins :: "state \<Rightarrow> string set" where
  "all_monitored_coins st =
     fold (\<lambda>chat_id acc. acc \<union> set (get_user_monitored_coins st chat_id)) (subscribers st) {}"

text \<open>
  Python does not fix the order in which \<^verbatim>\<open>list(s)\<close> enumerates a set \<open>s\<close>. The cycle
  takes the enumeration as a parameter \<open>list_of\<close>; all that is known of it is that it
  lists every element of the set once.
\<close>

definition enumerates :: "('a set \<Rightarrow> 'a list) \<Rightarrow> 'a set \<Rightarrow> bool" where
  "enumerates list_of S \<longleftrightarrow> set (list_of S) = S \<and> distinct (list_of S)"

text \<open>The float division of line 173; Python raises on a zero divisor.\<close>

definition truediv :: "float_arith \<Rightarrow> real \<Rightarrow> real \<Rightarrow> error + real" where
  "truediv arith a b = (if b = 0 then Inl ZeroDivisionError else Inr (float_div arith a b))"

definition user_threshold_of :: "real \<Rightarrow> state \<Rightarrow> int \<Rightarrow> real" where
  "user_threshold_of ALERT_THRESHOLD st chat_id =
     (case map_of (user_alert_thresholds st) chat_id of None \<Rightarrow> ALERT_THRESHOLD | Some t \<Rightarrow> t)"

text \<open>The body of the loop over the subscribers (lines 176 to 224) for one subscriber.\<close>

definition alert_subscriber :: "real \<Rightarrow> state \<Rightarrow> string \<Rightarrow> real \<Rightarrow> real \<Rightarrow> real \<Rightarrow> int \<Rightarrow> effect list" where
  "alert_subscriber ALERT_THRESHOLD st coin_id current_price last_price change chat_id =
     (let user_coins = get_user_monitored_coins st chat_id
      in if coin_id \<in> set user_coins then
           let user_threshold = user_threshold_of ALERT_THRESHOLD st chat_id
           in if change \<ge> user_threshold then
                [SendMessage \<lparr>msg_chat_id = chat_id, msg_coin_id = coin_id,
                   msg_direction = (if current_price > last_price then Up else Down),
                   msg_current_price = current_price, msg_last_price = last_price,
                   msg_change = change, msg_user_threshold = user_threshold\<rparr>]
              else []
         else [])"

text \<open>
  Lines 170 to 224 for one coin with a current price: the truthiness test of the last
  price, the change, and the alerts to the subscribers in their order.
\<close>

definition evaluate_coin :: "float_arith \<Rightarrow> real \<Rightarrow> state \<Rightarrow> string \<Rightarrow> real \<Rightarrow> real option \<Rightarrow> error + effect list" where
  "evaluate_coin arith ALERT_THRESHOLD st coin_id current_price last_price_opt =
     (case last_price_opt of
        None \<Rightarrow> Inr []
      | Some last_price \<Rightarrow>
          if last_price \<noteq> 0 then
            (case truediv arith (float_sub arith current_price last_price) last_price of
               Inl e \<Rightarrow> Inl e
             | Inr q \<Rightarrow>
                 let change = float_mul arith \<bar>q\<bar> 100
                 in Inr (concat (map (alert_subscriber ALERT_THRESHOLD st coin_id current_price last_price change)
                                   (subscribers st))))
          else Inr [])"

text \<open>
  \<^verbatim>\<open>current_prices.get(coin_id)\<close> followed by the test \<^verbatim>\<open>is None\<close>: a coin that is
  missing from the dict and a coin whose price is null are both skipped.
\<close>

definition lookup_price :: "(string \<times> real option) list \<Rightarrow> string \<Rightarrow> real option" where
  "lookup_price current_prices coin_id =
     (case map_of current_prices coin_id of None \<Rightarrow> None | Some p \<Rightarrow> p)"

text \<open>
  The loop over the monitored coins (lines 165 to 227). It threads the dict of last
  prices and returns it with the messages sent. An exception ends the cycle.
\<close>

fun check_coins :: "float_arith \<Rightarrow> real \<Rightarrow> state \<Rightarrow> (string \<times> real option) list \<Rightarrow> string list \<Rightarrow> (string \<times> real) list \<Rightarrow> error + (string \<times> real) list \<times> effect list" where
  "check_coins arith ALERT_THRESHOLD st current_prices [] prices = Inr (prices, [])"
| "check_coins arith ALERT_THRESHOLD st current_prices (coin_id # rest) prices =
     (case lookup_price current_prices coin_id of
        None \<Rightarrow> check_coins arith ALERT_THRESHOLD st current_prices rest prices
      | Some current_price \<Rightarrow>
          (case evaluate_coin arith ALERT_THRESHOLD st coin_id current_price (map_of prices coin_id) of
             Inl e \<Rightarrow> Inl e
           | Inr sent \<Rightarrow>
               (case check_coins arith ALERT_THRESHOLD st current_prices rest
                       (AList.update coin_id current_price prices) of
                  Inl e \<Rightarrow> Inl e
                | Inr (prices', sent') \<Rightarrow> Inr (prices', sent @ sent'))))"

text \<open>The dict \<^verbatim>\<open>current_prices\<close> of line 163.\<close>

definition fetched_prices :: "(string set \<Rightarrow> string list) \<Rightarrow> (string \<Rightarrow> error + price_json) \<Rightarrow> state \<Rightarrow> (string \<times> real option) list" where
  "fetched_prices list_of http_get st =
     fst (get_multiple_prices http_get (list_of (all_monitored_coins st)) ''usd'')"

definition check_prices :: "float_arith \<Rightarrow> real \<Rightarrow> (string set \<Rightarrow> string list) \<Rightarrow> (string \<Rightarrow> error + price_json) \<Rightarrow> state \<Rightarrow> error + state \<times> effect list" where
  "check_prices arith ALERT_THRESHOLD list_of http_get st =
     (let monitored_coins = list_of (all_monitored_coins st)
      in if monitored_coins = [] then Inr (st, [])
         else
           let (current_prices, fetched) = get_multiple_prices http_get monitored_coins ''usd''
           in case check_coins arith ALERT_THRESHOLD st current_prices monitored_coins (last_prices st) of
                Inl e \<Rightarrow> Inl e
              | Inr (prices, sent) \<Rightarrow>
                  Inr (st\<lparr>last_prices := prices,
                          json_file := snd (save_last_prices prices (json_file st))\<rparr>,
                       fetched @ sent @ [SaveLastPrices prices]))"

text \<open>The messages among the effects of a cycle.\<close>

fun messages :: "effect list \<Rightarrow> message list" where
  "messages [] = []"
| "messages (SendMessage m # es) = m # messages es"
| "messages (e # es) = messages es"

subsection \<open>The alerts of one coin as a total function\<close>

text \<open>
  The guard of line 171 keeps the divisor of line 173 away from zero, so
  \<open>evaluate_coin\<close> never fails (lemma \<open>evaluate_coin_eq\<close> below) and its result is the
  following list. \<open>pct_change\<close> is the change as line 173 computes it, roundings
  included.
\<close>

definition pct_change :: "float_arith \<Rightarrow> real \<Rightarrow> real \<Rightarrow> real" where
  "pct_change arith current_price last_price =
     float_mul arith \<bar>float_div arith (float_sub arith current_price last_price) last_price\<bar> 100"

definition coin_alerts :: "float_arith \<Rightarrow> real \<Rightarrow> state \<Rightarrow> string \<Rightarrow> real \<Rightarrow> real option \<Rightarrow> effect list" where
  "coin_alerts arith ALERT_THRESHOLD st coin_id current_price last_price_opt =
     (case last_price_opt of
        None \<Rightarrow> []
      | Some last_price \<Rightarrow>
          if last_price \<noteq> 0 then
            concat (map (alert_subscriber ALERT_THRESHOLD st coin_id current_price last_price
                           (pct_change arith current_price last_price)) (subscribers st))
          else [])"

subsection \<open>What the loading of a per-user table reads\<close>

text \<open>
  The value that the comprehension of \<open>int_keys\<close> leaves under the integer key \<open>i\<close>:
  that of the last item whose key reads as \<open>i\<close>.
\<close>

fun last_by :: "(string \<Rightarrow> int option) \<Rightarrow> (string \<times> 'v) list \<Rightarrow> int \<Rightarrow> 'v option" where
  "last_by int_of [] i = None"
| "last_by int_of ((k, v) # items) i =
     (case last_by int_of items i of
        Some x \<Rightarrow> Some x
      | None \<Rightarrow> if int_of k = Some i then Some v else None)"

section \<open>Example runs\<close>

text \<open>
  Concrete inputs on which the properties below are exercised. \<open>registry\<close> builds a state
  whose stored document mirrors the globals; \<open>known_coins\<close> enumerates a set of coins in
  a fixed order; \<open>quote p\<close> is a price source that answers every request with the price
  \<open>p\<close> for bitcoin, \<open>unreachable\<close> one whose every request fails.
\<close>

definition registry :: "int list \<Rightarrow> (int \<times> real) list \<Rightarrow> (int \<times> string list) list \<Rightarrow> (string \<times> real) list \<Rightarrow> state" where
  "registry subs thresholds coins prices =
     \<lparr>subscribers = subs, last_prices = prices, user_alert_thresholds = thresholds,
      user_coin_subscriptions = coins,
      json_file = \<lparr>json_subscribers = subs,
                   json_user_alert_thresholds = map (\<lambda>(k, v). (str k, v)) thresholds,
                   json_user_coin_subscriptions = map (\<lambda>(k, v). (str k, v)) coins,
                   json_last_prices = prices\<rparr>\<rparr>"

definition known_coins :: "string set \<Rightarrow> string list" where
  "known_coins S = filter (\<lambda>c. c \<in> S) [''bitcoin'', ''ethereum'']"

definition quote :: "real \<Rightarrow> string \<Rightarrow> error + price_json" where
  "quote p url = Inr [(''bitcoin'', [(''usd'', Some p)])]"

definition unreachable :: "string \<Rightarrow> error + price_json" where
  "unreachable url = Inl HTTPError"

text \<open>
  Scenario B: the subscribers 1 and 2 watch bitcoin with the thresholds 2 and 10; a third
  subscriber watches it with no threshold of their own. The last price is 100.
\<close>

definition scenario_B :: state where
  "scenario_B = registry [1, 2, 3] [(1, 2), (2, 10)]
                  [(1, [''bitcoin'']), (2, [''bitcoin'']), (3, [''bitcoin''])] [(''bitcoin'', 100)]"

text \<open>Two subscribers watch bitcoin with the thresholds 2 and 57; the last price is 100.\<close>

definition thresholds_2_57 :: state where
  "thresholds_2_57 = registry [1, 2] [(1, 2), (2, 57)]
                       [(1, [''bitcoin'']), (2, [''bitcoin''])] [(''bitcoin'', 100)]"

text \<open>
  A store that lags behind the globals, as after \<^verbatim>\<open>restore_data\<close>, which writes the stored
  tables and leaves the globals as they are: the dict of last prices holds 100, the
  stored table 90.
\<close>

definition out_of_sync :: state where
  "out_of_sync =
     \<lparr>subscribers = [1], last_prices = [(''bitcoin'', 100)], user_alert_thresholds = [],
      user_coin_subscriptions = [(1, [''bitcoin''])],
      json_file = \<lparr>json_subscribers = [1], json_user_alert_thresholds = [],
                   json_user_coin_subscriptions = [(''1'', [''bitcoin''])],
                   json_last_prices = [(''bitcoin'', 90)]\<rparr>\<rparr>"

text \<open>One subscriber watches bitcoin; no price has been seen yet.\<close>

definition new_watcher :: state where
  "new_watcher = registry [1] [] [(1, [''bitcoin''])] []"

text \<open>
  Subscriber 1 watches bitcoin with the threshold 4, subscriber 2 with no threshold of
  their own; the last price is 100.
\<close>

definition boundary_watchers :: state where
  "boundary_watchers = registry [1, 2] [(1, 4)] [(1, [''bitcoin'']), (2, [''bitcoin''])] [(''bitcoin'', 100)]"

text \<open>One subscriber watches bitcoin with the threshold 29; the last price is 100.\<close>

definition threshold_29 :: state where
  "threshold_29 = registry [1] [(1, 29)] [(1, [''bitcoin''])] [(''bitcoin'', 100)]"

text \<open>Subscriber 3 has an empty list of coins and subscriber 4 has no list at all.\<close>

definition idle_subscribers :: state where
  "idle_subscribers = registry [1, 3, 4] [(3, 1)] [(1, [''bitcoin'']), (3, [])] [(''bitcoin'', 100)]"

definition nothing_watched :: state where
  "nothing_watched = registry [3, 4] [] [(3, [])] [(''bitcoin'', 100)]"

text \<open>The last price of bitcoin is stored as zero.\<close>

definition zero_baseline :: state where
  "zero_baseline = registry [1] [(1, 1)] [(1, [''bitcoin''])] [(''bitcoin'', 0)]"

text \<open>The document that \<^verbatim>\<open>_ensure_json_file_exists\<close> creates, and the globals loaded from it.\<close>

definition empty_document :: document where
  "empty_document = \<lparr>json_subscribers = [], json_user_alert_thresholds = [],
                      json_user_coin_subscriptions = [], json_last_prices = []\<rparr>"

definition initial_state :: state where
  "initial_state = \<lparr>subscribers = [], last_prices = [], user_alert_thresholds = [],
                     user_coin_subscriptions = [], json_file = empty_document\<rparr>"

text \<open>User 7 subscribes, adds the coin btc and sets the threshold 3.\<close>

definition scenario_C :: state where
  "scenario_C =
     snd (set_user_alert_threshold 7 3
       (snd (add_coin_to_user_subscription 7 ''btc''
         (snd (add_subscriber 7 initial_state)))))"

text \<open>A stored document some of whose keys are not in the form that \<^verbatim>\<open>str\<close> writes.\<close>

definition stale_keys_document :: document where
  "stale_keys_document =
     \<lparr>json_subscribers = [7, 8],
      json_user_alert_thresholds = [(''07'', 2), (''8'', 4), (''7'', 3)],
      json_user_coin_subscriptions = [(''7'', [''btc'']), (''+8'', [])],
      json_last_prices = [(''btc'', 100)]\<rparr>"

section \<open>The poll cycle\<close>

subsection \<open>One coin\<close>

lemma evaluate_coin_eq:
  "evaluate_coin arith thr st c p lo = Inr (coin_alerts arith thr st c p lo)"
  by (simp add: evaluate_coin_def coin_alerts_def truediv_def pct_change_def split: option.splits)

lemma messages_append: "messages (xs @ ys) = messages xs @ messages ys"
  by (induction xs rule: messages.induct) simp_all

lemma messages_alert_subscriber:
  "messages (alert_subscriber thr st c p l ch u) =
     (if c \<in> set (get_user_monitored_coins st u) \<and> user_threshold_of thr st u \<le> ch
      then [\<lparr>msg_chat_id = u, msg_coin_id = c,
              msg_direction = (if p > l then Up else Down),
              msg_current_price = p, msg_last_price = l,
              msg_change = ch, msg_user_threshold = user_threshold_of thr st u\<rparr>]
      else [])"
  by (simp add: alert_subscriber_def Let_def)

lemma messages_concat_alerts:
  "messages (concat (map (alert_subscriber thr st c p l ch) us)) =
     map (\<lambda>u. \<lparr>msg_chat_id = u, msg_coin_id = c,
              msg_direction = (if p > l then Up else Down),
              msg_current_price = p, msg_last_price = l,
              msg_change = ch, msg_user_threshold = user_threshold_of thr st u\<rparr>)
       (filter (\<lambda>u. c \<in> set (get_user_monitored_coins st u) \<and> user_threshold_of thr st u \<le> ch) us)"
  by (induction us) (simp_all add: messages_append messages_alert_subscriber)

lemma messages_coin_alerts:
  "messages (coin_alerts arith thr st c p lo) =
     (case lo of
        None \<Rightarrow> []
      | Some l \<Rightarrow>
          if l \<noteq> 0 then
            map (\<lambda>u. \<lparr>msg_chat_id = u, msg_coin_id = c,
                  msg_direction = (if p > l then Up else Down),
                  msg_current_price = p, msg_last_price = l,
                  msg_change = pct_change arith p l, msg_user_threshold = user_threshold_of thr st u\<rparr>)
              (filter (\<lambda>u. c \<in> set (get_user_monitored_coins st u) \<and> user_threshold_of thr st u \<le> pct_change arith p l)
                 (subscribers st))
          else [])"
  by (simp add: coin_alerts_def messages_concat_alerts split: option.splits)

lemma coin_alerts_coin_id:
  "m \<in> set (messages (coin_alerts arith thr st c p lo)) \<Longrightarrow> msg_coin_id m = c"
  by (auto simp: messages_coin_alerts split: option.splits if_splits)

lemma coin_alerts_receiver:
  "m \<in> set (messages (coin_alerts arith thr st c p lo)) \<Longrightarrow>
     msg_chat_id m \<in> set (subscribers st) \<and> c \<in> set (get_user_monitored_coins st (msg_chat_id m))"
  by (auto simp: messages_coin_alerts split: option.splits if_splits)

subsection \<open>The loop over the coins\<close>

lemma check_coins_total:
  "\<exists>prices' sent. check_coins arith thr st cur coins prices = Inr (prices', sent)"
proof (induction coins arbitrary: prices)
  case Nil
  show ?case by simp
next
  case (Cons c coins)
  show ?case
  proof (cases "lookup_price cur c")
    case None
    with Cons.IH [of prices] show ?thesis by simp
  next
    case (Some p)
    from Cons.IH [of "AList.update c p prices"] obtain prices' sent' where
      "check_coins arith thr st cur coins (AList.update c p prices) = Inr (prices', sent')" by blast
    with Some show ?thesis by (simp add: evaluate_coin_eq)
  qed
qed

lemma check_coins_prices:
  "check_coins arith thr st cur coins prices = Inr (prices', sent) \<Longrightarrow>
     map_of prices' c =
       (if c \<in> set coins then (case lookup_price cur c of None \<Rightarrow> map_of prices c | Some p \<Rightarrow> Some p)
        else map_of prices c)"
proof (induction coins arbitrary: prices sent)
  case Nil
  then show ?case by simp
next
  case (Cons h coins)
  show ?case
  proof (cases "lookup_price cur h")
    case None
    with Cons.prems have "check_coins arith thr st cur coins prices = Inr (prices', sent)" by simp
    from Cons.IH [OF this] None show ?thesis by auto
  next
    case (Some p)
    with Cons.prems obtain sent' where
      r: "check_coins arith thr st cur coins (AList.update h p prices) = Inr (prices', sent')"
      by (auto simp: evaluate_coin_eq split: sum.splits)
    from Cons.IH [OF r] Some show ?thesis
      by (auto simp: update_conv' split: option.splits)
  qed
qed

lemma check_coins_messages:
  "distinct coins \<Longrightarrow> check_coins arith thr st cur coins prices = Inr (prices', sent) \<Longrightarrow>
     filter (\<lambda>m. msg_coin_id m = c) (messages sent) =
       (if c \<in> set coins then
          (case lookup_price cur c of
             None \<Rightarrow> []
           | Some p \<Rightarrow> messages (coin_alerts arith thr st c p (map_of prices c)))
        else [])"
proof (induction coins arbitrary: prices sent)
  case Nil
  then show ?case by simp
next
  case (Cons h coins)
  from Cons.prems have d: "distinct coins" and hn: "h \<notin> set coins" by simp_all
  show ?case
  proof (cases "lookup_price cur h")
    case None
    with Cons.prems have "check_coins arith thr st cur coins prices = Inr (prices', sent)" by simp
    from Cons.IH [OF d this] None hn show ?thesis by auto
  next
    case (Some p)
    with Cons.prems obtain sent' where
      r: "check_coins arith thr st cur coins (AList.update h p prices) = Inr (prices', sent')"
      and s: "sent = coin_alerts arith thr st h p (map_of prices h) @ sent'"
      by (auto simp: evaluate_coin_eq split: sum.splits)
    have own: "filter (\<lambda>m. msg_coin_id m = h) (messages (coin_alerts arith thr st h p (map_of prices h)))
                 = messages (coin_alerts arith thr st h p (map_of prices h))"
      by (rule filter_True) (simp add: coin_alerts_coin_id)
    have other: "c \<noteq> h \<Longrightarrow> filter (\<lambda>m. msg_coin_id m = c) (messages (coin_alerts arith thr st h p (map_of prices h))) = []"
      by (auto simp: filter_empty_conv dest: coin_alerts_coin_id)
    show ?thesis
    proof (cases "c = h")
      case True
      with Cons.IH [OF d r] hn have "filter (\<lambda>m. msg_coin_id m = c) (messages sent') = []" by simp
      with True Some s own show ?thesis by (simp add: messages_append)
    next
      case False
      then have "map_of (AList.update h p prices) c = map_of prices c"
        by (simp add: update_conv')
      with False Cons.IH [OF d r] s other show ?thesis
        by (simp add: messages_append cong: option.case_cong)
    qed
  qed
qed

lemma check_coins_nothing_fetched:
  "\<forall>c \<in> set coins. lookup_price cur c = None \<Longrightarrow> check_coins arith thr st cur coins prices = Inr (prices, [])"
  by (induction coins) simp_all

lemma check_coins_receivers:
  "check_coins arith thr st cur coins prices = Inr (prices', sent) \<Longrightarrow> m \<in> set (messages sent) \<Longrightarrow>
     msg_chat_id m \<in> set (subscribers st) \<and> msg_coin_id m \<in> set (get_user_monitored_coins st (msg_chat_id m))"
proof (induction coins arbitrary: prices sent)
  case Nil
  then show ?case by simp
next
  case (Cons h coins)
  show ?case
  proof (cases "lookup_price cur h")
    case None
    with Cons.prems have "check_coins arith thr st cur coins prices = Inr (prices', sent)" by simp
    from Cons.IH [OF this Cons.prems(2)] show ?thesis .
  next
    case (Some p)
    with Cons.prems obtain sent' where
      r: "check_coins arith thr st cur coins (AList.update h p prices) = Inr (prices', sent')"
      and s: "sent = coin_alerts arith thr st h p (map_of prices h) @ sent'"
      by (auto simp: evaluate_coin_eq split: sum.splits)
    from Cons.prems(2) s consider
      "m \<in> set (messages (coin_alerts arith thr st h p (map_of prices h)))" | "m \<in> set (messages sent')"
      by (auto simp: messages_append)
    then show ?thesis
    proof cases
      case 1
      with coin_alerts_receiver [OF 1] coin_alerts_coin_id [OF 1] show ?thesis by simp
    next
      case 2
      from Cons.IH [OF r 2] show ?thesis .
    qed
  qed
qed

subsection \<open>The fetch\<close>

lemma all_monitored_coins_eq:
  "all_monitored_coins st = (\<Union>u \<in> set (subscribers st). set (get_user_monitored_coins st u))"
proof -
  have "fold (\<lambda>chat_id acc. acc \<union> set (get_user_monitored_coins st chat_id)) us A
          = A \<union> (\<Union>u \<in> set us. set (get_user_monitored_coins st u))" for us A
    by (induction us arbitrary: A) auto
  then show ?thesis by (simp add: all_monitored_coins_def)
qed

lemma collect_prices_keys:
  "map_of (collect_prices data cur ids acc) c = Some x \<Longrightarrow> c \<in> set ids \<or> map_of acc c = Some x"
proof (induction ids arbitrary: acc)
  case Nil
  then show ?case by simp
next
  case (Cons h ids)
  let ?acc' = "(case map_of data h of None \<Rightarrow> acc
                | Some entry \<Rightarrow> (case map_of entry cur of None \<Rightarrow> acc | Some p \<Rightarrow> AList.update h p acc))"
  from Cons.prems have "map_of (collect_prices data cur ids ?acc') c = Some x" by simp
  from Cons.IH [OF this] have "c \<in> set ids \<or> map_of ?acc' c = Some x" .
  then show ?case
    by (auto simp: update_conv' split: option.splits if_splits)
qed

lemma get_multiple_prices_keys:
  "lookup_price (fst (get_multiple_prices http_get ids cur)) c = Some p \<Longrightarrow> c \<in> set ids"
  by (auto simp: get_multiple_prices_def lookup_price_def Let_def
           split: if_splits sum.splits option.splits dest: collect_prices_keys)

lemma get_multiple_prices_messages:
  "messages (snd (get_multiple_prices http_get ids cur)) = []"
  by (simp add: get_multiple_prices_def Let_def split: sum.splits)

lemma get_multiple_prices_failure:
  assumes "\<forall>url. \<exists>e. http_get url = Inl e"
  shows "fst (get_multiple_prices http_get ids cur) = []"
proof -
  have "fst (case http_get url of Inl e \<Rightarrow> ([], [HttpGet url]) | Inr data \<Rightarrow> (f data, [HttpGet url])) = []"
    for url and f :: "price_json \<Rightarrow> (string \<times> real option) list"
    using assms [rule_format, of url] by auto
  then show ?thesis by (simp add: get_multiple_prices_def Let_def)
qed

lemma get_multiple_prices_request:
  assumes "ids \<noteq> []" and "\<forall>url. \<exists>e. http_get url = Inl e"
  shows "\<exists>url. snd (get_multiple_prices http_get ids cur) = [HttpGet url]"
proof -
  have "snd (case http_get url of Inl e \<Rightarrow> ([], [HttpGet url]) | Inr data \<Rightarrow> (f data, [HttpGet url]))
          = [HttpGet url]"
    for url and f :: "price_json \<Rightarrow> (string \<times> real option) list"
    by (simp split: sum.splits)
  with assms(1) show ?thesis by (simp add: get_multiple_prices_def Let_def)
qed

subsection \<open>The whole cycle\<close>

lemma check_prices_skip:
  "list_of (all_monitored_coins st) = [] \<Longrightarrow> check_prices arith thr list_of http_get st = Inr (st, [])"
  by (simp add: check_prices_def)

lemma check_prices_run:
  assumes "list_of (all_monitored_coins st) \<noteq> []"
  obtains prices sent where
    "check_coins arith thr st (fetched_prices list_of http_get st) (list_of (all_monitored_coins st)) (last_prices st)
       = Inr (prices, sent)"
    "check_prices arith thr list_of http_get st =
       Inr (st\<lparr>last_prices := prices, json_file := (json_file st)\<lparr>json_last_prices := prices\<rparr>\<rparr>,
            snd (get_multiple_prices http_get (list_of (all_monitored_coins st)) ''usd'') @ sent @ [SaveLastPrices prices])"
proof -
  obtain prices sent where
    r: "check_coins arith thr st (fetched_prices list_of http_get st) (list_of (all_monitored_coins st)) (last_prices st)
          = Inr (prices, sent)"
    using check_coins_total by blast
  with assms have "check_prices arith thr list_of http_get st =
       Inr (st\<lparr>last_prices := prices, json_file := (json_file st)\<lparr>json_last_prices := prices\<rparr>\<rparr>,
            snd (get_multiple_prices http_get (list_of (all_monitored_coins st)) ''usd'') @ sent @ [SaveLastPrices prices])"
    by (simp add: check_prices_def fetched_prices_def save_last_prices_def save_last_prices_json_def
             Let_def case_prod_beta)
  with r that show thesis by blast
qed

lemma fetched_in_monitored:
  assumes "enumerates list_of (all_monitored_coins st)"
    and "lookup_price (fetched_prices list_of http_get st) c = Some p"
  shows "c \<in> set (list_of (all_monitored_coins st))" "list_of (all_monitored_coins st) \<noteq> []"
proof -
  from assms(2) show "c \<in> set (list_of (all_monitored_coins st))"
    unfolding fetched_prices_def by (rule get_multiple_prices_keys)
  then show "list_of (all_monitored_coins st) \<noteq> []" by auto
qed

lemma check_prices_coin:
  assumes e: "enumerates list_of (all_monitored_coins st)"
    and f: "lookup_price (fetched_prices list_of http_get st) c = Some p"
  shows "\<exists>st' effects. check_prices arith thr list_of http_get st = Inr (st', effects)
           \<and> filter (\<lambda>m. msg_coin_id m = c) (messages effects)
               = messages (coin_alerts arith thr st c p (map_of (last_prices st) c))
           \<and> map_of (last_prices st') c = Some p
           \<and> map_of (json_last_prices (json_file st')) c = Some p"
proof -
  from fetched_in_monitored [OF e f]
  have mem: "c \<in> set (list_of (all_monitored_coins st))" and ne: "list_of (all_monitored_coins st) \<noteq> []" .
  from e have d: "distinct (list_of (all_monitored_coins st))" by (simp add: enumerates_def)
  from check_prices_run [where list_of = list_of and st = st and arith = arith and thr = thr and http_get = http_get, OF ne] obtain prices sent where
    r: "check_coins arith thr st (fetched_prices list_of http_get st) (list_of (all_monitored_coins st)) (last_prices st)
          = Inr (prices, sent)"
    and c: "check_prices arith thr list_of http_get st =
       Inr (st\<lparr>last_prices := prices, json_file := (json_file st)\<lparr>json_last_prices := prices\<rparr>\<rparr>,
            snd (get_multiple_prices http_get (list_of (all_monitored_coins st)) ''usd'') @ sent @ [SaveLastPrices prices])"
    by blast
  from check_coins_messages [OF d r, of c] mem f
  have m: "filter (\<lambda>m. msg_coin_id m = c) (messages sent)
             = messages (coin_alerts arith thr st c p (map_of (last_prices st) c))" by simp
  from check_coins_prices [OF r, of c] mem f have p: "map_of prices c = Some p" by simp
  from c m p show ?thesis
    by (simp add: messages_append get_multiple_prices_messages)
qed

lemmas example_defs = known_coins_def quote_def registry_def
  all_monitored_coins_def get_user_monitored_coins_def enumerates_def fetched_prices_def
  get_multiple_prices_def lookup_price_def lower_def lower_char_def

subsection \<open>Float arithmetic on the example prices\<close>

text \<open>
  \<open>round_double\<close> on some values whose doubles are well known: one tenth, and the sum of
  the doubles of 0.1 and 0.2, which is 0.30000000000000004 and not the double of 0.3.
\<close>

lemmas float_defs = round_double_def exponent_of_def round_half_even_def compute_floorlog Let_def

lemma round_double_tenth: "round_double (1 / 10) = 3602879701896397 / 2 ^ 55"
  by (simp add: float_defs)

lemma round_double_sum:
  "round_double (round_double (1 / 10) + round_double (2 / 10)) = 5404319552844596 / 2 ^ 54"
  "round_double (3 / 10) = 5404319552844595 / 2 ^ 54"
  by (simp_all add: float_defs)

text \<open>The change that line 173 computes for a last price of 100 and some current prices.\<close>

lemma ieee_change_100_104:
  "float_mul ieee_arith \<bar>float_div ieee_arith (float_sub ieee_arith 104 100) 100\<bar> 100 = 4"
  by (simp add: ieee_arith_def float_defs)

lemma ieee_change_100_105:
  "float_mul ieee_arith \<bar>float_div ieee_arith (float_sub ieee_arith 105 100) 100\<bar> 100 = 5"
  by (simp add: ieee_arith_def float_defs)

lemma ieee_change_100_129:
  "float_mul ieee_arith \<bar>float_div ieee_arith (float_sub ieee_arith 129 100) 100\<bar> 100
     = 8162774324609023 / 2 ^ 48"
  by (simp add: ieee_arith_def float_defs)

lemma ieee_change_100_157:
  "float_mul ieee_arith \<bar>float_div ieee_arith (float_sub ieee_arith 157 100) 100\<bar> 100
     = 8022036836253695 / 2 ^ 47"
  by (simp add: ieee_arith_def float_defs)

text \<open>
  C7. When the coins of all subscribers together are the empty set, the cycle returns at
  once: it has no effect at all (no request to the price source, no message, no write
  of the last prices) and the state, the stored document included, is unchanged.
\<close>

theorem check_prices_nothing_monitored:
  assumes "enumerates list_of (all_monitored_coins st)" and "all_monitored_coins st = {}"
  shows "check_prices arith thr list_of http_get st = Inr (st, [])"
  using assms by (simp add: enumerates_def check_prices_skip)

theorem check_prices_nothing_monitored_witness:
  "enumerates known_coins (all_monitored_coins nothing_watched)
   \<and> all_monitored_coins nothing_watched = {}
   \<and> (\<forall>arith. check_prices arith 5 known_coins (quote 200) nothing_watched = Inr (nothing_watched, []))"
proof -
  have e: "enumerates known_coins (all_monitored_coins nothing_watched)" by (simp add: example_defs nothing_watched_def)
  have a: "all_monitored_coins nothing_watched = {}" by (simp add: example_defs nothing_watched_def)
  from check_prices_nothing_monitored [OF e a] e a show ?thesis by simp
qed

text \<open>
  C2. The claim: when the batched fetch fails as a whole, the cycle is aborted, the table
  of last prices has the same content after the cycle as before, and no message is sent.
  The code does not abort the cycle. \<open>get_multiple_prices\<close> catches the exception and
  returns the empty dict, every coin is then skipped, and line 229 saves the last prices
  as in any other cycle. On \<open>out_of_sync\<close>, where the stored table holds 90 and the dict
  holds 100, the cycle writes the store, and the stored table has changed. No arithmetic
  takes place in this run; it is given the exact operations.
\<close>

theorem check_prices_fetch_failure_counterexample:
  "json_last_prices (json_file out_of_sync) = [(''bitcoin'', 90)]
   \<and> check_prices \<lparr>float_sub = (\<lambda>a b. a - b), float_div = (\<lambda>a b. a / b),
                      float_mul = (\<lambda>a b. a * b)\<rparr>
         5 known_coins unreachable out_of_sync =
       Inr (out_of_sync\<lparr>json_file := (json_file out_of_sync)\<lparr>json_last_prices := [(''bitcoin'', 100)]\<rparr>\<rparr>,
            [HttpGet ''https://api.coingecko.com/api/v3/simple/price?ids=bitcoin&vs_currencies=usd'',
             SaveLastPrices [(''bitcoin'', 100)]])
   \<and> json_last_prices (json_file (out_of_sync\<lparr>json_file := (json_file out_of_sync)\<lparr>json_last_prices := [(''bitcoin'', 100)]\<rparr>\<rparr>))
       \<noteq> json_last_prices (json_file out_of_sync)"
  by (simp add: check_prices_def example_defs out_of_sync_def unreachable_def join.simps
        save_last_prices_def save_last_prices_json_def Let_def)

text \<open>
  C2, as the code has it. When every request of the price source raises, the cycle
  returns normally, sends no message, and leaves the four globals as they were; the dict
  of last prices in particular is the one the cycle started with. If nothing is
  monitored the cycle has no effect. Otherwise it makes the one request and then saves
  the last prices: the stored table of last prices becomes the unchanged dict, and the
  rest of the stored document is untouched.
\<close>

theorem check_prices_fetch_failure_memory:
  assumes "\<forall>url. \<exists>e. http_get url = Inl e"
  shows "\<exists>st' effects. check_prices arith thr list_of http_get st = Inr (st', effects)
           \<and> last_prices st' = last_prices st
           \<and> subscribers st' = subscribers st
           \<and> user_alert_thresholds st' = user_alert_thresholds st
           \<and> user_coin_subscriptions st' = user_coin_subscriptions st
           \<and> messages effects = []
           \<and> (if list_of (all_monitored_coins st) = [] then st' = st \<and> effects = []
               else json_file st' = (json_file st)\<lparr>json_last_prices := last_prices st\<rparr>
                    \<and> (\<exists>url. effects = [HttpGet url, SaveLastPrices (last_prices st)]))"
proof (cases "list_of (all_monitored_coins st) = []")
  case True
  then show ?thesis by (simp add: check_prices_skip)
next
  case False
  from assms have "fetched_prices list_of http_get st = []"
    by (simp add: fetched_prices_def get_multiple_prices_failure)
  then have none: "\<forall>c \<in> set (list_of (all_monitored_coins st)).
                     lookup_price (fetched_prices list_of http_get st) c = None"
    by (simp add: lookup_price_def)
  from check_prices_run [where list_of = list_of and st = st and arith = arith and thr = thr
                           and http_get = http_get, OF False]
  obtain prices sent where
    r: "check_coins arith thr st (fetched_prices list_of http_get st) (list_of (all_monitored_coins st)) (last_prices st)
          = Inr (prices, sent)"
    and c: "check_prices arith thr list_of http_get st =
       Inr (st\<lparr>last_prices := prices, json_file := (json_file st)\<lparr>json_last_prices := prices\<rparr>\<rparr>,
            snd (get_multiple_prices http_get (list_of (all_monitored_coins st)) ''usd'') @ sent @ [SaveLastPrices prices])"
    by blast
  from r check_coins_nothing_fetched [OF none, of arith thr st "last_prices st"]
  have p: "prices = last_prices st" and s: "sent = []" by simp_all
  from False assms have "\<exists>url. snd (get_multiple_prices http_get (list_of (all_monitored_coins st)) ''usd'')
                            = [HttpGet url]"
    by (rule get_multiple_prices_request)
  then obtain url where
    "snd (get_multiple_prices http_get (list_of (all_monitored_coins st)) ''usd'') = [HttpGet url]" ..
  with c p s False show ?thesis by simp
qed

theorem check_prices_fetch_failure_memory_witness:
  "(\<forall>url. \<exists>e. unreachable url = Inl e)
   \<and> known_coins (all_monitored_coins out_of_sync) \<noteq> []
   \<and> last_prices out_of_sync = [(''bitcoin'', 100)]
   \<and> (\<forall>arith. \<exists>st' effects. check_prices arith 5 known_coins unreachable out_of_sync = Inr (st', effects)
         \<and> last_prices st' = [(''bitcoin'', 100)] \<and> messages effects = []
         \<and> json_last_prices (json_file st') = [(''bitcoin'', 100)]
         \<and> (\<exists>url. effects = [HttpGet url, SaveLastPrices [(''bitcoin'', 100)]]))"
proof -
  have h: "\<forall>url. \<exists>e. unreachable url = Inl e" by (simp add: unreachable_def)
  have n: "known_coins (all_monitored_coins out_of_sync) \<noteq> []"
    by (simp add: example_defs out_of_sync_def)
  have l: "last_prices out_of_sync = [(''bitcoin'', 100)]"
    by (simp add: out_of_sync_def)
  have "\<exists>st' effects. check_prices arith 5 known_coins unreachable out_of_sync = Inr (st', effects)
         \<and> last_prices st' = [(''bitcoin'', 100)] \<and> messages effects = []
         \<and> json_last_prices (json_file st') = [(''bitcoin'', 100)]
         \<and> (\<exists>url. effects = [HttpGet url, SaveLastPrices [(''bitcoin'', 100)]])" for arith
    using check_prices_fetch_failure_memory [OF h, of arith 5 known_coins out_of_sync] n l by auto
  with h n l show ?thesis by blast
qed

text \<open>
  C3. A monitored coin \<open>c\<close> has no last price and the fetch of this cycle returns the
  price \<open>p\<close> for it. Then the cycle sends no message about \<open>c\<close>, and at its end \<open>p\<close>
  is the last price of \<open>c\<close>, in the dict and in the stored table.
\<close>

theorem check_prices_first_observation:
  assumes "enumerates list_of (all_monitored_coins st)"
    and "map_of (last_prices st) c = None"
    and "lookup_price (fetched_prices list_of http_get st) c = Some p"
  shows "\<exists>st' effects. check_prices arith thr list_of http_get st = Inr (st', effects)
           \<and> filter (\<lambda>m. msg_coin_id m = c) (messages effects) = []
           \<and> map_of (last_prices st') c = Some p
           \<and> map_of (json_last_prices (json_file st')) c = Some p"
  using check_prices_coin [where arith = arith and thr = thr, OF assms(1) assms(3)] assms(2)
  by (simp add: coin_alerts_def)

theorem check_prices_first_observation_witness:
  "enumerates known_coins (all_monitored_coins new_watcher)
   \<and> map_of (last_prices new_watcher) ''bitcoin'' = None
   \<and> lookup_price (fetched_prices known_coins (quote 100) new_watcher) ''bitcoin'' = Some 100
   \<and> (\<forall>arith. \<exists>st' effects. check_prices arith 5 known_coins (quote 100) new_watcher = Inr (st', effects)
         \<and> filter (\<lambda>m. msg_coin_id m = ''bitcoin'') (messages effects) = []
         \<and> map_of (last_prices st') ''bitcoin'' = Some 100
         \<and> map_of (json_last_prices (json_file st')) ''bitcoin'' = Some 100)"
proof -
  have e: "enumerates known_coins (all_monitored_coins new_watcher)" by (simp add: example_defs new_watcher_def)
  have l: "map_of (last_prices new_watcher) ''bitcoin'' = None" by (simp add: example_defs new_watcher_def)
  have f: "lookup_price (fetched_prices known_coins (quote 100) new_watcher) ''bitcoin'' = Some 100"
    by (simp add: example_defs new_watcher_def)
  from check_prices_first_observation [where thr = 5, OF e l f] e l f
  show ?thesis by simp
qed

text \<open>
  C4. The claim: for a subscriber who watches a coin with a last price, a percentage
  change equal to the subscriber's threshold alerts, and a change below it does not.
  The code compares the float that line 173 computes, which is not always the exact
  percentage. On \<open>threshold_29\<close> the subscriber's threshold is 29 and the price moves from
  100 to 129, a change of exactly 29 percent; the float computed is
  28.999999999999996, and the cycle sends no message.
\<close>

theorem check_prices_threshold_boundary_counterexample:
  "1 \<in> set (subscribers threshold_29)
   \<and> ''bitcoin'' \<in> set (get_user_monitored_coins threshold_29 1)
   \<and> map_of (last_prices threshold_29) ''bitcoin'' = Some 100
   \<and> map_of (user_alert_thresholds threshold_29) 1 = Some 29
   \<and> \<bar>(129 - 100) / 100\<bar> * 100 = (29::real)
   \<and> check_prices ieee_arith 5 known_coins (quote 129) threshold_29 =
       Inr (threshold_29\<lparr>last_prices := [(''bitcoin'', 129)],
              json_file := (json_file threshold_29)\<lparr>json_last_prices := [(''bitcoin'', 129)]\<rparr>\<rparr>,
            [HttpGet ''https://api.coingecko.com/api/v3/simple/price?ids=bitcoin&vs_currencies=usd'',
             SaveLastPrices [(''bitcoin'', 129)]])"
  by (simp add: check_prices_def example_defs threshold_29_def evaluate_coin_def truediv_def
        alert_subscriber_def user_threshold_of_def ieee_change_100_129
        save_last_prices_def save_last_prices_json_def Let_def)

text \<open>
  C4, as the code has it. Subscriber \<open>u\<close> watches coin \<open>c\<close>, whose last price \<open>l\<close> is not
  zero, and the fetch returns the price \<open>p\<close> for \<open>c\<close>. The change is the float that line
  173 computes from \<open>p\<close> and \<open>l\<close>: the difference, divided by \<open>l\<close>, in absolute value,
  times 100, each operation with its rounding. The threshold in force is the
  subscriber's own if they have set one and \<open>ALERT_THRESHOLD\<close> otherwise. The cycle sends
  \<open>u\<close> a message about \<open>c\<close> exactly when the computed change is at least the threshold:
  a computed change equal to the threshold alerts, one below it does not.
\<close>

theorem check_prices_threshold_boundary:
  assumes "enumerates list_of (all_monitored_coins st)"
    and "u \<in> set (subscribers st)" and "c \<in> set (get_user_monitored_coins st u)"
    and "map_of (last_prices st) c = Some l" and "l \<noteq> 0"
    and "lookup_price (fetched_prices list_of http_get st) c = Some p"
  shows "\<exists>st' effects. check_prices arith ALERT_THRESHOLD list_of http_get st = Inr (st', effects)
           \<and> ((\<exists>m \<in> set (messages effects). msg_chat_id m = u \<and> msg_coin_id m = c)
                \<longleftrightarrow> float_mul arith \<bar>float_div arith (float_sub arith p l) l\<bar> 100
                      \<ge> (case map_of (user_alert_thresholds st) u of
                           None \<Rightarrow> ALERT_THRESHOLD
                         | Some t \<Rightarrow> t))"
proof -
  from check_prices_coin [where arith = arith and thr = ALERT_THRESHOLD, OF assms(1) assms(6)]
  obtain st' effects where
    c: "check_prices arith ALERT_THRESHOLD list_of http_get st = Inr (st', effects)"
    and m: "filter (\<lambda>m. msg_coin_id m = c) (messages effects)
               = messages (coin_alerts arith ALERT_THRESHOLD st c p (map_of (last_prices st) c))"
    by blast
  have "(\<exists>m \<in> set (messages effects). msg_chat_id m = u \<and> msg_coin_id m = c)
          \<longleftrightarrow> (\<exists>m \<in> set (filter (\<lambda>m. msg_coin_id m = c) (messages effects)). msg_chat_id m = u)"
    by auto
  also have "\<dots> \<longleftrightarrow> float_mul arith \<bar>float_div arith (float_sub arith p l) l\<bar> 100
                      \<ge> (case map_of (user_alert_thresholds st) u of
                           None \<Rightarrow> ALERT_THRESHOLD
                         | Some t \<Rightarrow> t)"
    unfolding m using assms(2-5)
    by (auto simp: messages_coin_alerts pct_change_def user_threshold_of_def)
  finally show ?thesis using c by blast
qed

text \<open>
  On \<open>boundary_watchers\<close> subscriber 1 has the threshold 4 and subscriber 2 has none, the
  default being 5. The price moves from 100 to 104 and the computed change is 4:
  subscriber 1 is alerted, subscriber 2 is not.
\<close>

theorem check_prices_threshold_boundary_witness:
  "enumerates known_coins (all_monitored_coins boundary_watchers)
   \<and> 1 \<in> set (subscribers boundary_watchers) \<and> 2 \<in> set (subscribers boundary_watchers)
   \<and> ''bitcoin'' \<in> set (get_user_monitored_coins boundary_watchers 1)
   \<and> ''bitcoin'' \<in> set (get_user_monitored_coins boundary_watchers 2)
   \<and> map_of (last_prices boundary_watchers) ''bitcoin'' = Some 100 \<and> (100::real) \<noteq> 0
   \<and> map_of (user_alert_thresholds boundary_watchers) 1 = Some 4
   \<and> map_of (user_alert_thresholds boundary_watchers) 2 = None
   \<and> lookup_price (fetched_prices known_coins (quote 104) boundary_watchers) ''bitcoin'' = Some 104
   \<and> float_mul ieee_arith \<bar>float_div ieee_arith (float_sub ieee_arith 104 100) 100\<bar> 100 = 4
   \<and> (\<exists>st' effects. check_prices ieee_arith 5 known_coins (quote 104) boundary_watchers = Inr (st', effects)
         \<and> (\<exists>m \<in> set (messages effects). msg_chat_id m = 1 \<and> msg_coin_id m = ''bitcoin'')
         \<and> \<not> (\<exists>m \<in> set (messages effects). msg_chat_id m = 2 \<and> msg_coin_id m = ''bitcoin''))"
proof -
  have e: "enumerates known_coins (all_monitored_coins boundary_watchers)"
    by (simp add: example_defs boundary_watchers_def)
  have s1: "1 \<in> set (subscribers boundary_watchers)" and s2: "2 \<in> set (subscribers boundary_watchers)"
    by (simp_all add: example_defs boundary_watchers_def)
  have w1: "''bitcoin'' \<in> set (get_user_monitored_coins boundary_watchers 1)"
    and w2: "''bitcoin'' \<in> set (get_user_monitored_coins boundary_watchers 2)"
    by (simp_all add: example_defs boundary_watchers_def)
  have l: "map_of (last_prices boundary_watchers) ''bitcoin'' = Some 100"
    by (simp add: example_defs boundary_watchers_def)
  have t1: "map_of (user_alert_thresholds boundary_watchers) 1 = Some 4"
    and t2: "map_of (user_alert_thresholds boundary_watchers) 2 = None"
    by (simp_all add: example_defs boundary_watchers_def)
  have f: "lookup_price (fetched_prices known_coins (quote 104) boundary_watchers) ''bitcoin'' = Some 104"
    by (simp add: example_defs boundary_watchers_def)
  note ch = ieee_change_100_104
  obtain st' effects where
    r: "check_prices ieee_arith 5 known_coins (quote 104) boundary_watchers = Inr (st', effects)"
    and n1: "\<exists>m \<in> set (messages effects). msg_chat_id m = 1 \<and> msg_coin_id m = ''bitcoin''"
    using check_prices_threshold_boundary
            [where arith = ieee_arith and ALERT_THRESHOLD = 5, OF e s1 w1 l _ f] t1 ch
    by auto
  from check_prices_threshold_boundary
         [where arith = ieee_arith and ALERT_THRESHOLD = 5, OF e s2 w2 l _ f] t2 ch r
  have n2: "\<not> (\<exists>m \<in> set (messages effects). msg_chat_id m = 2 \<and> msg_coin_id m = ''bitcoin'')"
    by simp
  from r n1 n2 have a: "\<exists>st' effects. check_prices ieee_arith 5 known_coins (quote 104) boundary_watchers = Inr (st', effects)
         \<and> (\<exists>m \<in> set (messages effects). msg_chat_id m = 1 \<and> msg_coin_id m = ''bitcoin'')
         \<and> \<not> (\<exists>m \<in> set (messages effects). msg_chat_id m = 2 \<and> msg_coin_id m = ''bitcoin'')"
    by blast
  from e s1 s2 w1 w2 l t1 t2 f ch a show ?thesis by simp
qed

text \<open>
  C5. The claim: the subscribers notified about a coin are exactly those who watch it and
  whose threshold in force is at most the absolute percentage change. The code selects
  them by the float that line 173 computes. On \<open>thresholds_2_57\<close> the price moves from
  100 to 157, a change of exactly 57 percent, and subscriber 2 has the threshold 57; the
  float computed is 56.99999999999999, and only subscriber 1 gets a message.
\<close>

theorem check_prices_fan_out_counterexample:
  "subscribers thresholds_2_57 = [1, 2]
   \<and> ''bitcoin'' \<in> set (get_user_monitored_coins thresholds_2_57 2)
   \<and> map_of (last_prices thresholds_2_57) ''bitcoin'' = Some 100
   \<and> map_of (user_alert_thresholds thresholds_2_57) 2 = Some 57
   \<and> (57::real) \<le> \<bar>(157 - 100) / 100\<bar> * 100
   \<and> check_prices ieee_arith 5 known_coins (quote 157) thresholds_2_57 =
       Inr (thresholds_2_57\<lparr>last_prices := [(''bitcoin'', 157)],
              json_file := (json_file thresholds_2_57)\<lparr>json_last_prices := [(''bitcoin'', 157)]\<rparr>\<rparr>,
            [HttpGet ''https://api.coingecko.com/api/v3/simple/price?ids=bitcoin&vs_currencies=usd'',
             SendMessage \<lparr>msg_chat_id = 1, msg_coin_id = ''bitcoin'', msg_direction = Up,
               msg_current_price = 157, msg_last_price = 100,
               msg_change = 8022036836253695 / 2 ^ 47, msg_user_threshold = 2\<rparr>,
             SaveLastPrices [(''bitcoin'', 157)]])"
  by (simp add: check_prices_def example_defs thresholds_2_57_def evaluate_coin_def truediv_def
        alert_subscriber_def user_threshold_of_def ieee_change_100_157
        save_last_prices_def save_last_prices_json_def Let_def)

text \<open>
  C5, as the code has it. For a coin \<open>c\<close> with a last price \<open>l\<close> other than zero and a
  fetched price \<open>p\<close>, the messages of the cycle about \<open>c\<close> are, in the order of the
  subscriber list, one message to each subscriber who watches \<open>c\<close> and whose threshold in
  force (their own if set, otherwise \<open>ALERT_THRESHOLD\<close>) is at most the change, the change
  being the float that line 173 computes. Each message carries the direction up when
  \<open>p > l\<close> and down otherwise, both prices, the computed change and that threshold.
\<close>

theorem check_prices_fan_out:
  assumes "enumerates list_of (all_monitored_coins st)"
    and "map_of (last_prices st) c = Some l" and "l \<noteq> 0"
    and "lookup_price (fetched_prices list_of http_get st) c = Some p"
  shows "\<exists>st' effects. check_prices arith ALERT_THRESHOLD list_of http_get st = Inr (st', effects)
           \<and> filter (\<lambda>m. msg_coin_id m = c) (messages effects) =
               map (\<lambda>u. \<lparr>msg_chat_id = u, msg_coin_id = c,
                          msg_direction = (if p > l then Up else Down),
                          msg_current_price = p, msg_last_price = l,
                          msg_change = float_mul arith \<bar>float_div arith (float_sub arith p l) l\<bar> 100,
                          msg_user_threshold =
                            (case map_of (user_alert_thresholds st) u of
                               None \<Rightarrow> ALERT_THRESHOLD
                             | Some t \<Rightarrow> t)\<rparr>)
                 (filter (\<lambda>u. c \<in> set (get_user_monitored_coins st u)
                               \<and> (case map_of (user_alert_thresholds st) u of
                                     None \<Rightarrow> ALERT_THRESHOLD
                                   | Some t \<Rightarrow> t)
                                  \<le> float_mul arith \<bar>float_div arith (float_sub arith p l) l\<bar> 100)
                    (subscribers st))"
  using check_prices_coin [where arith = arith and thr = ALERT_THRESHOLD, OF assms(1) assms(4)] assms(2,3)
  by (auto simp: messages_coin_alerts pct_change_def user_threshold_of_def)

text \<open>
  Scenario B, with a third subscriber who has no threshold of their own: the thresholds
  are 2, 10 and the default 5, and the price moves from 100 to 105, a computed change of
  5. The subscribers 1 and 3 are alerted, subscriber 2 is not.
\<close>

theorem check_prices_fan_out_witness:
  "enumerates known_coins (all_monitored_coins scenario_B)
   \<and> map_of (last_prices scenario_B) ''bitcoin'' = Some 100 \<and> (100::real) \<noteq> 0
   \<and> lookup_price (fetched_prices known_coins (quote 105) scenario_B) ''bitcoin'' = Some 105
   \<and> (\<exists>st' effects. check_prices ieee_arith 5 known_coins (quote 105) scenario_B = Inr (st', effects)
        \<and> filter (\<lambda>m. msg_coin_id m = ''bitcoin'') (messages effects) =
            [\<lparr>msg_chat_id = 1, msg_coin_id = ''bitcoin'', msg_direction = Up,
              msg_current_price = 105, msg_last_price = 100, msg_change = 5,
              msg_user_threshold = 2\<rparr>,
             \<lparr>msg_chat_id = 3, msg_coin_id = ''bitcoin'', msg_direction = Up,
              msg_current_price = 105, msg_last_price = 100, msg_change = 5,
              msg_user_threshold = 5\<rparr>])"
proof -
  have e: "enumerates known_coins (all_monitored_coins scenario_B)"
    by (simp add: example_defs scenario_B_def)
  have l: "map_of (last_prices scenario_B) ''bitcoin'' = Some 100"
    by (simp add: example_defs scenario_B_def)
  have f: "lookup_price (fetched_prices known_coins (quote 105) scenario_B) ''bitcoin'' = Some 105"
    by (simp add: example_defs scenario_B_def)
  note ch = ieee_change_100_105
  have u: "filter (\<lambda>u. ''bitcoin'' \<in> set (get_user_monitored_coins scenario_B u)
                        \<and> (case map_of (user_alert_thresholds scenario_B) u of None \<Rightarrow> 5 | Some t \<Rightarrow> t)
                           \<le> (5::real))
             (subscribers scenario_B) = [1, 3]"
    by (simp add: example_defs scenario_B_def)
  have t: "map_of (user_alert_thresholds scenario_B) 1 = Some 2"
          "map_of (user_alert_thresholds scenario_B) 3 = None"
    by (simp_all add: example_defs scenario_B_def)
  from check_prices_fan_out [where arith = ieee_arith and ALERT_THRESHOLD = 5, OF e l _ f]
    ch u t e l f
  show ?thesis by simp
qed

text \<open>
  C6. A user whose list of coins is missing or empty monitors nothing
  (\<open>get_user_monitored_coins\<close> is empty), and no message of any cycle is addressed to
  them, whatever the prices are.
\<close>

theorem check_prices_empty_watch_set:
  assumes "map_of (user_coin_subscriptions st) u = None \<or> map_of (user_coin_subscriptions st) u = Some []"
  shows "get_user_monitored_coins st u = []
         \<and> (\<exists>st' effects. check_prices arith thr list_of http_get st = Inr (st', effects)
              \<and> (\<forall>m \<in> set (messages effects). msg_chat_id m \<noteq> u))"
proof -
  from assms have g: "get_user_monitored_coins st u = []"
    by (auto simp: get_user_monitored_coins_def)
  show ?thesis
  proof (cases "list_of (all_monitored_coins st) = []")
    case True
    with g show ?thesis by (simp add: check_prices_skip)
  next
    case False
    from check_prices_run [where list_of = list_of and st = st and arith = arith and thr = thr
                             and http_get = http_get, OF False]
    obtain prices sent where
      r: "check_coins arith thr st (fetched_prices list_of http_get st) (list_of (all_monitored_coins st)) (last_prices st)
            = Inr (prices, sent)"
      and c: "check_prices arith thr list_of http_get st =
         Inr (st\<lparr>last_prices := prices, json_file := (json_file st)\<lparr>json_last_prices := prices\<rparr>\<rparr>,
              snd (get_multiple_prices http_get (list_of (all_monitored_coins st)) ''usd'') @ sent @ [SaveLastPrices prices])"
      by blast
    have "msg_chat_id m \<noteq> u" if "m \<in> set (messages sent)" for m
      using check_coins_receivers [OF r that] g by auto
    with c g show ?thesis
      by (auto simp: messages_append get_multiple_prices_messages)
  qed
qed

text \<open>
  On \<open>idle_subscribers\<close> the price doubles from 100 to 200. Subscriber 1, who watches
  bitcoin, gets a message; the subscribers 3 and 4 get none. The run uses the exact
  operations, which here are those of floats: 200 - 100, 100 / 100 and 1 * 100 need no
  rounding.
\<close>

theorem check_prices_empty_watch_set_witness:
  "map_of (user_coin_subscriptions idle_subscribers) 3 = Some []
   \<and> map_of (user_coin_subscriptions idle_subscribers) 4 = None
   \<and> get_user_monitored_coins idle_subscribers 3 = []
   \<and> get_user_monitored_coins idle_subscribers 4 = []
   \<and> (\<exists>st' effects.
         check_prices \<lparr>float_sub = (\<lambda>a b. a - b), float_div = (\<lambda>a b. a / b),
                        float_mul = (\<lambda>a b. a * b)\<rparr>
           5 known_coins (quote 200) idle_subscribers = Inr (st', effects)
         \<and> (\<forall>m \<in> set (messages effects). msg_chat_id m \<noteq> 3 \<and> msg_chat_id m \<noteq> 4)
         \<and> messages effects \<noteq> [])"
proof -
  let ?exact = "\<lparr>float_sub = (\<lambda>a b. a - b), float_div = (\<lambda>a b. a / b),
                 float_mul = (\<lambda>a b. a * b)\<rparr> :: float_arith"
  have a: "map_of (user_coin_subscriptions idle_subscribers) 3 = Some []" by (simp add: example_defs idle_subscribers_def)
  have b: "map_of (user_coin_subscriptions idle_subscribers) 4 = None" by (simp add: example_defs idle_subscribers_def)
  have n: "\<exists>st' effects. check_prices ?exact 5 known_coins (quote 200) idle_subscribers = Inr (st', effects)
             \<and> messages effects \<noteq> []"
    by (simp add: check_prices_def example_defs idle_subscribers_def evaluate_coin_def truediv_def
          alert_subscriber_def user_threshold_of_def save_last_prices_def save_last_prices_json_def
          Let_def)
  from check_prices_empty_watch_set
         [where arith = ?exact and thr = 5 and list_of = known_coins and http_get = "quote 200",
          OF disjI2, OF a]
       check_prices_empty_watch_set
         [where arith = ?exact and thr = 5 and list_of = known_coins and http_get = "quote 200",
          OF disjI1, OF b] a b n
  show ?thesis by auto
qed

text \<open>
  C10. The division of line 173 never raises: \<open>evaluate_coin\<close> never returns
  ZeroDivisionError and the cycle always returns normally. A coin whose last price is
  missing or is zero gets no message in the cycle.
\<close>

theorem check_prices_zero_last_price:
  shows "(\<forall>c p l. evaluate_coin arith thr st c p l \<noteq> Inl ZeroDivisionError)
       \<and> (\<exists>st' effects. check_prices arith thr list_of http_get st = Inr (st', effects)
            \<and> (enumerates list_of (all_monitored_coins st) \<longrightarrow>
                (\<forall>c. map_of (last_prices st) c = None \<or> map_of (last_prices st) c = Some 0 \<longrightarrow>
                     filter (\<lambda>m. msg_coin_id m = c) (messages effects) = [])))"
proof -
  have a: "\<forall>c p l. evaluate_coin arith thr st c p l \<noteq> Inl ZeroDivisionError"
    by (simp add: evaluate_coin_eq)
  have b: "\<exists>st' effects. check_prices arith thr list_of http_get st = Inr (st', effects)
            \<and> (enumerates list_of (all_monitored_coins st) \<longrightarrow>
                (\<forall>c. map_of (last_prices st) c = None \<or> map_of (last_prices st) c = Some 0 \<longrightarrow>
                     filter (\<lambda>m. msg_coin_id m = c) (messages effects) = []))"
  proof (cases "list_of (all_monitored_coins st) = []")
    case True
    then show ?thesis by (simp add: check_prices_skip)
  next
    case False
    from check_prices_run [where list_of = list_of and st = st and arith = arith and thr = thr
                             and http_get = http_get, OF False]
    obtain prices sent where
      r: "check_coins arith thr st (fetched_prices list_of http_get st) (list_of (all_monitored_coins st)) (last_prices st)
            = Inr (prices, sent)"
      and c: "check_prices arith thr list_of http_get st =
         Inr (st\<lparr>last_prices := prices, json_file := (json_file st)\<lparr>json_last_prices := prices\<rparr>\<rparr>,
              snd (get_multiple_prices http_get (list_of (all_monitored_coins st)) ''usd'') @ sent @ [SaveLastPrices prices])"
      by blast
    have "filter (\<lambda>m. msg_coin_id m = c) (messages sent) = []"
      if e: "enumerates list_of (all_monitored_coins st)"
        and z: "map_of (last_prices st) c = None \<or> map_of (last_prices st) c = Some 0" for c
    proof -
      from e have d: "distinct (list_of (all_monitored_coins st))" by (simp add: enumerates_def)
      from z have "messages (coin_alerts arith thr st c p (map_of (last_prices st) c)) = []" for p
        by (auto simp: coin_alerts_def)
      with check_coins_messages [OF d r, of c] show ?thesis
        by (simp split: option.splits)
    qed
    with c show ?thesis
      by (simp add: messages_append get_multiple_prices_messages)
  qed
  from a b show ?thesis by blast
qed

theorem check_prices_zero_last_price_witness:
  "enumerates known_coins (all_monitored_coins zero_baseline)
   \<and> map_of (last_prices zero_baseline) ''bitcoin'' = Some 0
   \<and> (\<forall>arith. evaluate_coin arith 5 zero_baseline ''bitcoin'' 50 (Some 0) \<noteq> Inl ZeroDivisionError
         \<and> (\<exists>st' effects. check_prices arith 5 known_coins (quote 50) zero_baseline = Inr (st', effects)
               \<and> filter (\<lambda>m. msg_coin_id m = ''bitcoin'') (messages effects) = []))"
proof -
  have e: "enumerates known_coins (all_monitored_coins zero_baseline)" by (simp add: example_defs zero_baseline_def)
  have z: "map_of (last_prices zero_baseline) ''bitcoin'' = Some 0" by (simp add: example_defs zero_baseline_def)
  have "evaluate_coin arith 5 zero_baseline ''bitcoin'' 50 (Some 0) \<noteq> Inl ZeroDivisionError
         \<and> (\<exists>st' effects. check_prices arith 5 known_coins (quote 50) zero_baseline = Inr (st', effects)
               \<and> filter (\<lambda>m. msg_coin_id m = ''bitcoin'') (messages effects) = [])" for arith
    using check_prices_zero_last_price
            [where arith = arith and thr = 5 and st = zero_baseline and list_of = known_coins
               and http_get = "quote 50"] e z
    by blast
  with e z show ?thesis by blast
qed

section \<open>The subscription registry\<close>

subsection \<open>Adding a coin\<close>

lemma get_user_monitored_coins_eq:
  "get_user_monitored_coins st user_id =
     (case map_of (user_coin_subscriptions st) user_id of None \<Rightarrow> [] | Some coins \<Rightarrow> coins)"
  by (simp add: get_user_monitored_coins_def split: option.splits)

lemma add_coin_known:
  "coin_id \<in> set (get_user_monitored_coins st user_id) \<Longrightarrow> add_coin_to_user_subscription user_id coin_id st = (False, st)"
  by (auto simp: add_coin_to_user_subscription_def get_user_monitored_coins_eq Let_def split: option.splits)

lemma add_coin_new:
  assumes "coin_id \<notin> set (get_user_monitored_coins st user_id)"
  shows "add_coin_to_user_subscription user_id coin_id st =
     (True, st\<lparr>user_coin_subscriptions :=
                  AList.update user_id (get_user_monitored_coins st user_id @ [coin_id]) (user_coin_subscriptions st),
                json_file := (json_file st)\<lparr>json_user_coin_subscriptions :=
                  AList.update (str user_id) (get_user_monitored_coins st user_id @ [coin_id])
                    (json_user_coin_subscriptions (json_file st))\<rparr>\<rparr>)"
proof (cases "map_of (user_coin_subscriptions st) user_id")
  case None
  have "AList.update user_id [coin_id] (AList.update user_id [] (user_coin_subscriptions st))
          = AList.update user_id [coin_id] (user_coin_subscriptions st)"
    by simp
  with None show ?thesis
    by (simp add: add_coin_to_user_subscription_def get_user_monitored_coins_eq Let_def update_conv'
          save_user_coin_subscriptions_def save_user_coin_subscriptions_json_def)
next
  case (Some cs)
  with assms show ?thesis
    by (simp add: add_coin_to_user_subscription_def get_user_monitored_coins_eq Let_def
          save_user_coin_subscriptions_def save_user_coin_subscriptions_json_def)
qed

text \<open>
  C9. A second call of \<open>add_coin_to_user_subscription\<close> with the same user and coin
  returns \<^verbatim>\<open>False\<close> and leaves the state, the stored document included, as the first
  call left it; so two calls give the same list of coins as one. The first call returns
  \<^verbatim>\<open>False\<close> and changes nothing when the coin is already in the list; otherwise it
  returns \<^verbatim>\<open>True\<close>, the user has an entry (a new one for an unknown user) that holds the
  former coins followed by the new one, and the stored table holds that list under the
  user's key.
\<close>

theorem add_coin_to_user_subscription_idempotent:
  "fst (add_coin_to_user_subscription u a (snd (add_coin_to_user_subscription u a st))) = False
   \<and> snd (add_coin_to_user_subscription u a (snd (add_coin_to_user_subscription u a st)))
       = snd (add_coin_to_user_subscription u a st)
   \<and> (if a \<in> set (get_user_monitored_coins st u)
       then add_coin_to_user_subscription u a st = (False, st)
       else fst (add_coin_to_user_subscription u a st) = True
          \<and> map_of (user_coin_subscriptions (snd (add_coin_to_user_subscription u a st))) u
               = Some (get_user_monitored_coins st u @ [a])
          \<and> map_of (json_user_coin_subscriptions (json_file (snd (add_coin_to_user_subscription u a st)))) (str u)
               = Some (get_user_monitored_coins st u @ [a]))"
proof (cases "a \<in> set (get_user_monitored_coins st u)")
  case True
  then show ?thesis by (simp add: add_coin_known)
next
  case False
  let ?st1 = "snd (add_coin_to_user_subscription u a st)"
  from add_coin_new [OF False] have w: "get_user_monitored_coins ?st1 u = get_user_monitored_coins st u @ [a]"
    by (simp add: get_user_monitored_coins_eq update_conv')
  then have "a \<in> set (get_user_monitored_coins ?st1 u)" by simp
  from add_coin_known [OF this] have "add_coin_to_user_subscription u a ?st1 = (False, ?st1)" .
  with False w add_coin_new [OF False] show ?thesis
    by (simp add: update_conv')
qed

theorem add_coin_to_user_subscription_idempotent_witness:
  "add_coin_to_user_subscription 7 ''btc'' initial_state =
     (True, \<lparr>subscribers = [], last_prices = [], user_alert_thresholds = [],
             user_coin_subscriptions = [(7, [''btc''])],
             json_file = \<lparr>json_subscribers = [], json_user_alert_thresholds = [],
                          json_user_coin_subscriptions = [(''7'', [''btc''])],
                          json_last_prices = []\<rparr>\<rparr>)
   \<and> add_coin_to_user_subscription 7 ''btc'' (snd (add_coin_to_user_subscription 7 ''btc'' initial_state))
       = (False, snd (add_coin_to_user_subscription 7 ''btc'' initial_state))"
proof -
  have a: "add_coin_to_user_subscription 7 ''btc'' initial_state =
     (True, \<lparr>subscribers = [], last_prices = [], user_alert_thresholds = [],
             user_coin_subscriptions = [(7, [''btc''])],
             json_file = \<lparr>json_subscribers = [], json_user_alert_thresholds = [],
                          json_user_coin_subscriptions = [(''7'', [''btc''])],
                          json_last_prices = []\<rparr>\<rparr>)"
    by (simp add: add_coin_to_user_subscription_def initial_state_def empty_document_def Let_def
          save_user_coin_subscriptions_def save_user_coin_subscriptions_json_def
          str_def str_nat.simps digit_char_def)
  from add_coin_to_user_subscription_idempotent [of 7 "''btc''" initial_state] a show ?thesis
    by (simp add: prod_eq_iff)
qed

subsection \<open>Removing a subscriber\<close>

text \<open>Saving a per-user table item by item assigns keys of the stored table and deletes none.\<close>

lemma save_all_user_thresholds_eq:
  "save_all_user_thresholds table d =
     d\<lparr>json_user_alert_thresholds :=
         fold (\<lambda>(i, v). AList.update (str i) v) table (json_user_alert_thresholds d)\<rparr>"
  unfolding save_all_user_thresholds_def
  by (induction table arbitrary: d)
     (simp_all add: save_user_threshold_def save_user_threshold_json_def split: prod.splits)

lemma save_all_user_coin_subscriptions_eq:
  "save_all_user_coin_subscriptions table d =
     d\<lparr>json_user_coin_subscriptions :=
         fold (\<lambda>(i, v). AList.update (str i) v) table (json_user_coin_subscriptions d)\<rparr>"
  unfolding save_all_user_coin_subscriptions_def
  by (induction table arbitrary: d)
     (simp_all add: save_user_coin_subscriptions_def save_user_coin_subscriptions_json_def split: prod.splits)

lemma remove_subscriber_not_subscribed:
  "chat_id \<notin> set (subscribers st) \<Longrightarrow> remove_subscriber chat_id st = (False, st)"
  by (simp add: remove_subscriber_def)

lemma remove_subscriber_memory:
  assumes "chat_id \<in> set (subscribers st)" and "distinct (subscribers st)"
  shows "fst (remove_subscriber chat_id st) = True
       \<and> chat_id \<notin> set (subscribers (snd (remove_subscriber chat_id st)))
       \<and> map_of (user_alert_thresholds (snd (remove_subscriber chat_id st))) chat_id = None
       \<and> map_of (user_coin_subscriptions (snd (remove_subscriber chat_id st))) chat_id = None
       \<and> json_subscribers (json_file (snd (remove_subscriber chat_id st)))
           = subscribers (snd (remove_subscriber chat_id st))"
  using assms
  by (simp add: remove_subscriber_def Let_def delete_conv' save_all_user_thresholds_eq
        save_all_user_coin_subscriptions_eq save_subscribers_def save_subscribers_json_def)

text \<open>
  C1. The claim: removing a subscriber returns \<^verbatim>\<open>True\<close> and leaves no entry of the user
  in the subscribers, the thresholds and the coins, in the globals and in the store;
  for a user who is not subscribed it returns \<^verbatim>\<open>False\<close> and changes nothing. The two
  lemmas above are the part that holds. The store is where the code differs: on the
  state of scenario C the call returns \<^verbatim>\<open>True\<close> and empties the three globals and the
  stored list of subscribers, but the stored tables of thresholds and of coins still
  hold the entries of user 7. The function saves the entries of the remaining users, and
  nothing removes a key from the document. Loading the document again brings the
  threshold and the coins of user 7 back.
\<close>

theorem remove_subscriber_leaves_stored_entries:
  "scenario_C = registry [7] [(7, 3)] [(7, [''btc''])] []
   \<and> fst (remove_subscriber 7 scenario_C) = True
   \<and> subscribers (snd (remove_subscriber 7 scenario_C)) = []
   \<and> user_alert_thresholds (snd (remove_subscriber 7 scenario_C)) = []
   \<and> user_coin_subscriptions (snd (remove_subscriber 7 scenario_C)) = []
   \<and> json_file (snd (remove_subscriber 7 scenario_C)) =
        \<lparr>json_subscribers = [], json_user_alert_thresholds = [(''7'', 3)],
         json_user_coin_subscriptions = [(''7'', [''btc''])], json_last_prices = []\<rparr>
   \<and> load_user_thresholds int_of_str (json_file (snd (remove_subscriber 7 scenario_C))) = [(7, 3)]
   \<and> load_user_coin_subscriptions int_of_str (json_file (snd (remove_subscriber 7 scenario_C)))
        = [(7, [''btc''])]"
  by (simp add: scenario_C_def remove_subscriber_def set_user_alert_threshold_def
        add_coin_to_user_subscription_def add_subscriber_def initial_state_def empty_document_def
        registry_def save_user_threshold_def save_user_threshold_json_def
        save_user_coin_subscriptions_def save_user_coin_subscriptions_json_def
        save_subscribers_def save_subscribers_json_def
        save_all_user_thresholds_def save_all_user_coin_subscriptions_def
        load_user_thresholds_def load_user_thresholds_json_def
        load_user_coin_subscriptions_def load_user_coin_subscriptions_json_def
        int_of_str_def digit_val_def str_def str_nat.simps digit_char_def Let_def)

section \<open>Saving what was loaded\<close>

subsection \<open>Integer keys\<close>

lemma int_keys_map_of:
  "int_keys f T acc = Inr r \<Longrightarrow>
     map_of r i = (case last_by f T i of Some x \<Rightarrow> Some x | None \<Rightarrow> map_of acc i)"
proof (induction T arbitrary: acc)
  case Nil
  then show ?case by simp
next
  case (Cons kv T)
  obtain k v where kv: "kv = (k, v)" by (cases kv)
  from Cons.prems kv obtain j where j: "f k = Some j"
    and r: "int_keys f T (AList.update j v acc) = Inr r"
    by (auto split: option.splits)
  from Cons.IH [OF r] kv j show ?case
    by (auto simp: update_conv' split: option.splits)
qed

lemma int_keys_Inr_iff:
  "(\<exists>r. int_keys f T acc = Inr r) \<longleftrightarrow> (\<forall>k \<in> fst ` set T. f k \<noteq> None)"
proof (induction T arbitrary: acc)
  case Nil
  show ?case by simp
next
  case (Cons kv T)
  obtain k v where kv: "kv = (k, v)" by (cases kv)
  show ?case
  proof (cases "f k")
    case None
    with kv show ?thesis by auto
  next
    case (Some j)
    with kv Cons.IH [of "AList.update j v acc"] show ?thesis by simp
  qed
qed

lemma int_keys_distinct:
  "int_keys f T acc = Inr r \<Longrightarrow> distinct (map fst acc) \<Longrightarrow> distinct (map fst r)"
proof (induction T arbitrary: acc)
  case Nil
  then show ?case by simp
next
  case (Cons kv T)
  obtain k v where kv: "kv = (k, v)" by (cases kv)
  from Cons.prems(1) kv obtain j where j: "f k = Some j"
    and r: "int_keys f T (AList.update j v acc) = Inr r"
    by (auto split: option.splits)
  from Cons.prems(2) have "distinct (map fst (AList.update j v acc))" by (rule distinct_update)
  from Cons.IH [OF r this] show ?case .
qed

lemma last_by_update_other:
  "f k = Some i \<Longrightarrow> j \<noteq> i \<Longrightarrow> last_by f (AList.update k v T) j = last_by f T j"
  by (induction T) (auto split: option.splits)

lemma last_by_update_same:
  "f k = Some i \<Longrightarrow>
     last_by f (AList.update k v T) i = Some v
     \<or> (last_by f (AList.update k v T) i = last_by f T i \<and> last_by f T i \<noteq> None)"
  by (induction T) (auto split: option.splits)

lemma last_by_update:
  assumes "f k = Some i" and "last_by f T i = Some v"
  shows "last_by f (AList.update k v T) = last_by f T"
proof
  fix j
  show "last_by f (AList.update k v T) j = last_by f T j"
  proof (cases "j = i")
    case True
    with last_by_update_same [where f = f and k = k and i = i and v = v and T = T, OF assms(1)] assms(2)
    show ?thesis by auto
  next
    case False
    with last_by_update_other [where f = f and k = k and i = i and j = j and v = v and T = T, OF assms(1)]
    show ?thesis by simp
  qed
qed

lemma last_by_fold_update:
  assumes "\<forall>i. f (str i) = Some i"
  shows "\<forall>(i, v) \<in> set r. last_by f T i = Some v \<Longrightarrow>
           last_by f (fold (\<lambda>(i, v). AList.update (str i) v) r T) = last_by f T"
proof (induction r arbitrary: T)
  case Nil
  show ?case by simp
next
  case (Cons iv r)
  obtain i v where iv: "iv = (i, v)" by (cases iv)
  from Cons.prems iv have h: "last_by f T i = Some v" by simp
  from assms have "f (str i) = Some i" by simp
  from last_by_update [OF this h] have e: "last_by f (AList.update (str i) v T) = last_by f T" .
  from Cons.prems e have "\<forall>(j, w) \<in> set r. last_by f (AList.update (str i) v T) j = Some w"
    by auto
  from Cons.IH [OF this] e iv show ?case by simp
qed

lemma keys_fold_update:
  "fst ` set (fold (\<lambda>(i, v). AList.update (str i) v) r T) = fst ` set T \<union> str ` fst ` set r"
proof (induction r arbitrary: T)
  case Nil
  show ?case by simp
next
  case (Cons iv r)
  obtain i v where iv: "iv = (i, v)" by (cases iv)
  from Cons.IH [of "AList.update (str i) v T"] iv show ?case
    by (auto simp: dom_update)
qed

text \<open>Loading a per-user table, saving every item of the result and loading again.\<close>

lemma int_keys_roundtrip:
  assumes law: "\<forall>i. f (str i) = Some i"
  shows "map_of (case int_keys f (fold (\<lambda>(i, v). AList.update (str i) v)
                                    (case int_keys f T [] of Inl e \<Rightarrow> [] | Inr t \<Rightarrow> t) T) [] of
                   Inl e \<Rightarrow> [] | Inr t \<Rightarrow> t)
           = map_of (case int_keys f T [] of Inl e \<Rightarrow> [] | Inr t \<Rightarrow> t)"
proof (cases "int_keys f T []")
  case (Inl e)
  then show ?thesis by simp
next
  case (Inr r)
  let ?T' = "fold (\<lambda>(i, v). AList.update (str i) v) r T"
  from int_keys_distinct [OF Inr] have d: "distinct (map fst r)" by simp
  have m: "map_of r i = last_by f T i" for i
    using int_keys_map_of [OF Inr, of i] by (simp split: option.splits)
  have "\<forall>(i, v) \<in> set r. last_by f T i = Some v"
  proof clarify
    fix i v
    assume "(i, v) \<in> set r"
    with d have "map_of r i = Some v" by (rule map_of_is_SomeI)
    with m [of i] show "last_by f T i = Some v" by simp
  qed
  from last_by_fold_update [OF law this] have same: "last_by f ?T' = last_by f T" .
  from Inr have "\<forall>k \<in> fst ` set T. f k \<noteq> None"
    using int_keys_Inr_iff [of f T "[]"] by blast
  with law have "\<forall>k \<in> fst ` set ?T'. f k \<noteq> None"
    by (auto simp: keys_fold_update)
  then obtain r' where r': "int_keys f ?T' [] = Inr r'"
    using int_keys_Inr_iff [of f ?T' "[]"] by blast
  have "map_of r' i = map_of r i" for i
    using int_keys_map_of [OF r', of i] same m [of i] by (simp split: option.splits)
  then have "map_of r' = map_of r" by (rule ext)
  with Inr r' show ?thesis by simp
qed

lemma last_by_item:
  "last_by f T i = Some v \<Longrightarrow> \<exists>k. (k, v) \<in> set T \<and> f k = Some i"
  by (induction T) (auto split: option.splits if_splits)

lemma fold_update_same:
  "\<forall>(i, v) \<in> set r. map_of T (str i) = Some v \<Longrightarrow>
     fold (\<lambda>(i, v). AList.update (str i) v) r T = T"
  by (induction r) (auto simp: update_triv)

text \<open>
  A table whose keys are all written by \<open>str\<close>, each once, is left as it is: every item
  is saved under the key it was loaded from.
\<close>

lemma int_keys_canonical_noop:
  assumes law: "\<forall>i. f (str i) = Some i"
    and canon: "\<forall>k \<in> fst ` set T. \<exists>i. k = str i"
    and dist: "distinct (map fst T)"
  shows "fold (\<lambda>(i, v). AList.update (str i) v)
           (case int_keys f T [] of Inl e \<Rightarrow> [] | Inr t \<Rightarrow> t) T = T"
proof (cases "int_keys f T []")
  case (Inl e)
  then show ?thesis by simp
next
  case (Inr r)
  have "\<forall>(i, v) \<in> set r. map_of T (str i) = Some v"
  proof clarify
    fix i v
    assume iv: "(i, v) \<in> set r"
    from int_keys_distinct [OF Inr] have "distinct (map fst r)" by simp
    from this iv have "map_of r i = Some v" by (rule map_of_is_SomeI)
    with int_keys_map_of [OF Inr, of i] have "last_by f T i = Some v"
      by (simp split: option.splits)
    from last_by_item [OF this] obtain k where k: "(k, v) \<in> set T" and fk: "f k = Some i" by blast
    from k canon obtain j where j: "k = str j" by force
    with fk law have "j = i" by simp
    with j k have "(str i, v) \<in> set T" by simp
    with dist show "map_of T (str i) = Some v" by (rule map_of_is_SomeI)
  qed
  from fold_update_same [OF this] Inr show ?thesis by simp
qed

lemma save_all_user_thresholds_canonical:
  assumes "\<forall>i. int_of (str i) = Some i"
    and "\<forall>k \<in> fst ` set (json_user_alert_thresholds d). \<exists>i. k = str i"
    and "distinct (map fst (json_user_alert_thresholds d))"
  shows "save_all_user_thresholds (load_user_thresholds int_of d) d = d"
  using int_keys_canonical_noop [OF assms]
  by (simp add: save_all_user_thresholds_eq load_user_thresholds_def load_user_thresholds_json_def)

lemma save_all_user_coin_subscriptions_canonical:
  assumes "\<forall>i. int_of (str i) = Some i"
    and "\<forall>k \<in> fst ` set (json_user_coin_subscriptions d). \<exists>i. k = str i"
    and "distinct (map fst (json_user_coin_subscriptions d))"
  shows "save_all_user_coin_subscriptions (load_user_coin_subscriptions int_of d) d = d"
  using int_keys_canonical_noop [OF assms]
  by (simp add: save_all_user_coin_subscriptions_eq load_user_coin_subscriptions_def
        load_user_coin_subscriptions_json_def)

subsection \<open>The reference parser reads what \<open>str\<close> writes\<close>

lemma digit_cases: "(n::nat) < 10 \<Longrightarrow> n \<in> {0, 1, 2, 3, 4, 5, 6, 7, 8, 9}"
  by (simp; arith)

lemma digit_val_digit_char: "n < 10 \<Longrightarrow> digit_val (digit_char n) = Some n"
  using digit_cases [of n] by (auto simp: digit_val_def digit_char_def)

lemma nat_of_digits_snoc:
  "nat_of_digits (cs @ [c]) acc =
     (case nat_of_digits cs acc of
        None \<Rightarrow> None
      | Some m \<Rightarrow> (case digit_val c of None \<Rightarrow> None | Some d \<Rightarrow> Some (10 * m + d)))"
  by (induction cs arbitrary: acc) (simp_all split: option.splits)

declare str_nat.simps [simp del]

lemma nat_of_digits_str_nat: "nat_of_digits (str_nat n) 0 = Some n"
proof (induction n rule: str_nat.induct)
  case (1 n)
  show ?case
  proof (cases "n < 10")
    case True
    then show ?thesis
      by (subst str_nat.simps) (simp add: digit_val_digit_char)
  next
    case False
    with 1 have "nat_of_digits (str_nat (n div 10)) 0 = Some (n div 10)" by simp
    with False show ?thesis
      by (subst str_nat.simps) (simp add: nat_of_digits_snoc digit_val_digit_char)
  qed
qed

lemma str_nat_digits: "str_nat n \<noteq> [] \<and> set (str_nat n) \<subseteq> set ''0123456789''"
proof (induction n rule: str_nat.induct)
  case (1 n)
  have d: "digit_char m \<in> set ''0123456789''" if "m < 10" for m
    using that unfolding digit_char_def by (intro nth_mem) simp
  show ?case
  proof (cases "n < 10")
    case True
    with d [of n] show ?thesis by (subst (1 2) str_nat.simps) simp
  next
    case False
    with 1 d [of "n mod 10"] show ?thesis by (subst (1 2) str_nat.simps) simp
  qed
qed

lemma int_of_str_str_nat: "int_of_str (str_nat n) = Some (int n)"
proof -
  from str_nat_digits [of n] obtain c cs where s: "str_nat n = c # cs" and "c \<in> set ''0123456789''"
    by (cases "str_nat n") auto
  then have "c \<noteq> CHR ''-''" "c \<noteq> CHR ''+''" by auto
  with s nat_of_digits_str_nat [of n] show ?thesis
    by (simp add: int_of_str_def)
qed

lemma int_of_str_str: "int_of_str (str i) = Some i"
proof (cases "i < 0")
  case True
  from str_nat_digits [of "nat (- i)"] have "str_nat (nat (- i)) \<noteq> []" by simp
  with True nat_of_digits_str_nat [of "nat (- i)"] show ?thesis
    by (simp add: str_def int_of_str_def)
next
  case False
  with int_of_str_str_nat [of "nat i"] show ?thesis by (simp add: str_def)
qed

text \<open>
  C8. Saving a table with the value that was just loaded from it leaves the value that
  the next load returns unchanged. For the subscribers and the last prices the whole
  table is saved, and the stored document itself is unchanged; for the thresholds and
  the coins, every item of the loaded dict is saved, and the dict loaded afterwards has
  the same items. \<open>int_of\<close> stands for Python's \<^verbatim>\<open>int\<close>, of which only
  \<^verbatim>\<open>int(str(i)) == i\<close> is used.
\<close>

theorem save_after_load_roundtrip:
  assumes "\<forall>i. int_of (str i) = Some i"
  shows "snd (save_subscribers (load_subscribers d) d) = d
       \<and> load_subscribers (snd (save_subscribers (load_subscribers d) d)) = load_subscribers d
       \<and> snd (save_last_prices (load_last_prices d) d) = d
       \<and> load_last_prices (snd (save_last_prices (load_last_prices d) d)) = load_last_prices d
       \<and> map_of (load_user_thresholds int_of (save_all_user_thresholds (load_user_thresholds int_of d) d))
           = map_of (load_user_thresholds int_of d)
       \<and> map_of (load_user_coin_subscriptions int_of
                    (save_all_user_coin_subscriptions (load_user_coin_subscriptions int_of d) d))
           = map_of (load_user_coin_subscriptions int_of d)"
proof -
  have a: "snd (save_subscribers (load_subscribers d) d) = d"
    by (simp add: load_subscribers_def load_subscribers_json_def save_subscribers_def save_subscribers_json_def)
  have b: "snd (save_last_prices (load_last_prices d) d) = d"
    by (simp add: load_last_prices_def load_last_prices_json_def save_last_prices_def save_last_prices_json_def)
  have c: "map_of (load_user_thresholds int_of (save_all_user_thresholds (load_user_thresholds int_of d) d))
           = map_of (load_user_thresholds int_of d)"
    using int_keys_roundtrip [OF assms, of "json_user_alert_thresholds d"]
    by (simp add: load_user_thresholds_def load_user_thresholds_json_def save_all_user_thresholds_eq)
  have e: "map_of (load_user_coin_subscriptions int_of
                    (save_all_user_coin_subscriptions (load_user_coin_subscriptions int_of d) d))
           = map_of (load_user_coin_subscriptions int_of d)"
    using int_keys_roundtrip [OF assms, of "json_user_coin_subscriptions d"]
    by (simp add: load_user_coin_subscriptions_def load_user_coin_subscriptions_json_def
          save_all_user_coin_subscriptions_eq)
  from a b c e show ?thesis by simp
qed

theorem save_after_load_roundtrip_witness:
  "(\<forall>i. int_of_str (str i) = Some i)
   \<and> load_subscribers stale_keys_document = [7, 8]
   \<and> load_subscribers (snd (save_subscribers [7, 8] stale_keys_document)) = [7, 8]
   \<and> load_last_prices stale_keys_document = [(''btc'', 100)]
   \<and> load_last_prices (snd (save_last_prices [(''btc'', 100)] stale_keys_document)) = [(''btc'', 100)]
   \<and> load_user_thresholds int_of_str stale_keys_document = [(7, 3), (8, 4)]
   \<and> map_of (load_user_thresholds int_of_str
         (save_all_user_thresholds [(7, 3), (8, 4)] stale_keys_document))
       = map_of [(7, 3), (8, 4)]
   \<and> load_user_coin_subscriptions int_of_str stale_keys_document = [(7, [''btc'']), (8, [])]
   \<and> map_of (load_user_coin_subscriptions int_of_str
         (save_all_user_coin_subscriptions [(7, [''btc'']), (8, [])] stale_keys_document))
       = map_of [(7, [''btc'']), (8, [])]"
proof -
  have h: "\<forall>i. int_of_str (str i) = Some i" by (simp add: int_of_str_str)
  have s: "load_subscribers stale_keys_document = [7, 8]"
    by (simp add: load_subscribers_def load_subscribers_json_def stale_keys_document_def)
  have p: "load_last_prices stale_keys_document = [(''btc'', 100)]"
    by (simp add: load_last_prices_def load_last_prices_json_def stale_keys_document_def)
  have l: "load_user_thresholds int_of_str stale_keys_document = [(7, 3), (8, 4)]"
    by (simp add: load_user_thresholds_def load_user_thresholds_json_def stale_keys_document_def
          int_of_str_def digit_val_def)
  have c: "load_user_coin_subscriptions int_of_str stale_keys_document = [(7, [''btc'']), (8, [])]"
    by (simp add: load_user_coin_subscriptions_def load_user_coin_subscriptions_json_def
          stale_keys_document_def int_of_str_def digit_val_def)
  from save_after_load_roundtrip [OF h, of stale_keys_document] h s p l c show ?thesis by simp
qed

end
